theory Spec2Isabelle
  imports Complex_Main "HOL-Library.Code_Target_Numeral"
begin

section \<open>JavaScript values\<close>

text \<open>
  The page script \<^verbatim>\<open>static/js/script.js\<close> works on values that come out of
  \<^verbatim>\<open>JSON.parse\<close> of the server's responses, so the model has a datatype of
  JavaScript values. A string is the list of the bytes of its UTF-8 text. An object is
  the list of its own properties. A finite number is written by a decimal value:
  \<open>Fin q\<close> is the number that the literal \<open>q\<close> denotes for \<^verbatim>\<open>JSON.parse\<close> and
  \<^verbatim>\<open>parseFloat\<close>, that is the IEEE double nearest to \<open>q\<close> (\<open>double_of\<close> below);
  \<open>NegZero\<close> is the literal \<^verbatim>\<open>-0\<close>.
\<close>

datatype jsnum = NaN | PosInf | NegInf | NegZero | Fin rat

datatype jsval =
    JUndefined
  | JNull
  | JBool bool
  | JNum jsnum
  | JStr string
  | JArr "jsval list"
  | JObj "(string \<times> jsval) list"

type_synonym jsobj = "(string \<times> jsval) list"

subsection \<open>Doubles\<close>

text \<open>The number of binary digits of a natural number.\<close>

fun bits :: "nat \<Rightarrow> nat" where
  "bits n = (if n = 0 then 0 else Suc (bits (n div 2)))"

definition pow2 :: "int \<Rightarrow> rat" where
  "pow2 i = (if 0 \<le> i then 2 ^ nat i else 1 / 2 ^ nat (- i))"

text \<open>
  For a positive \<open>a = p / d\<close>, the integer \<open>k\<close> with \<open>2^k \<le> a < 2^(k+1)\<close>: by the
  digits of \<open>p\<close> and \<open>d\<close> it is their difference or one less.
\<close>

definition floor_log2 :: "rat \<Rightarrow> int" where
  "floor_log2 a =
     (let k = int (bits (nat (fst (quotient_of a)))) - int (bits (nat (snd (quotient_of a))))
      in if pow2 k \<le> a then k else k - 1)"

definition round_half_even :: "rat \<Rightarrow> int" where
  "round_half_even x =
     (let f = \<lfloor>x\<rfloor>; r = x - of_int f
      in if r < 1 / 2 then f else if 1 / 2 < r then f + 1 else if even f then f else f + 1)"

text \<open>
  Rounding to binary64, to nearest, ties to even: 53 significant binary digits, with
  the spacing of the subnormal numbers below \<open>2^-1022\<close>. The result is the exact value
  of the double; a result of \<open>2^1024\<close> or more stands for an overflow.
\<close>

definition round_double :: "rat \<Rightarrow> rat" where
  "round_double q =
     (if q = 0 then 0
      else
        let e = max (floor_log2 \<bar>q\<bar>) (- 1022) - 52
        in sgn q * of_int (round_half_even (\<bar>q\<bar> / pow2 e)) * pow2 e)"

text \<open>
  The double that a number of the model stands for: \<open>Fin v\<close> with the exact value
  \<open>v\<close>, an infinity on overflow, a zero with the sign of the literal on underflow.
\<close>

definition double_of :: "rat \<Rightarrow> jsnum" where
  "double_of q =
     (let v = round_double q
      in if 2 ^ 1024 \<le> \<bar>v\<bar> then (if 0 < q then PosInf else NegInf)
         else if v = 0 \<and> q < 0 then NegZero
         else Fin v)"

fun norm :: "jsnum \<Rightarrow> jsnum" where
  "norm (Fin q) = double_of q"
| "norm x = x"

text \<open>Whether a number is a zero of either sign: what \<^verbatim>\<open>x === 0\<close> tests on a number.\<close>

definition is_zero :: "jsnum \<Rightarrow> bool" where
  "is_zero x = (norm x = Fin 0 \<or> norm x = NegZero)"

subsection \<open>Truthiness and properties\<close>

text \<open>ToBoolean: what \<^verbatim>\<open>!v\<close>, \<^verbatim>\<open>a || b\<close> and \<^verbatim>\<open>if (v)\<close> test.\<close>

fun truthy :: "jsval \<Rightarrow> bool" where
  "truthy JUndefined = False"
| "truthy JNull = False"
| "truthy (JBool b) = b"
| "truthy (JNum x) = (x \<noteq> NaN \<and> \<not> is_zero x)"
| "truthy (JStr s) = (s \<noteq> [])"
| "truthy (JArr xs) = True"
| "truthy (JObj kvs) = True"

text \<open>\<^verbatim>\<open>a || b\<close>: the left operand when it is truthy, else the right one.\<close>

definition js_or :: "jsval \<Rightarrow> jsval \<Rightarrow> jsval" where
  "js_or a b = (if truthy a then a else b)"

text \<open>\<^verbatim>\<open>v === 0\<close>: strict equality with the number zero.\<close>

fun strict_zero :: "jsval \<Rightarrow> bool" where
  "strict_zero (JNum x) = is_zero x"
| "strict_zero v = False"

text \<open>
  \<^verbatim>\<open>o.k\<close> on an object: the property's value, \<^verbatim>\<open>undefined\<close> when the object has
  no such key. (The keys the script reads are never inherited ones.)
\<close>

definition get_prop :: "jsobj \<Rightarrow> string \<Rightarrow> jsval" where
  "get_prop obj k = (case map_of obj k of None \<Rightarrow> JUndefined | Some v \<Rightarrow> v)"

text \<open>
  \<^verbatim>\<open>v.k\<close> for the keys that the script reads by name (never \<^verbatim>\<open>length\<close>) on a value
  that is neither \<^verbatim>\<open>null\<close> nor \<^verbatim>\<open>undefined\<close>: a primitive or an array has none of
  them. On \<^verbatim>\<open>null\<close> and \<^verbatim>\<open>undefined\<close> the read throws a TypeError; \<open>readable\<close>
  tells the two apart, and \<open>prop_of\<close> is used on readable values only.
\<close>

fun prop_of :: "jsval \<Rightarrow> string \<Rightarrow> jsval" where
  "prop_of (JObj kvs) k = get_prop kvs k"
| "prop_of v k = JUndefined"

fun readable :: "jsval \<Rightarrow> bool" where
  "readable JUndefined = False"
| "readable JNull = False"
| "readable v = True"

text \<open>\<^verbatim>\<open>Object.keys(v)\<close> for an object; no keys for anything else in this model.\<close>

fun keys_of :: "jsval \<Rightarrow> string list" where
  "keys_of (JObj kvs) = map fst kvs"
| "keys_of v = []"

text \<open>
  The length of a string in UTF-16 code units, from its UTF-8 bytes: one for every
  byte that starts a character, and one more where the character takes four bytes.
\<close>

definition utf16_units :: "char \<Rightarrow> nat" where
  "utf16_units c =
     (if (of_char c :: nat) < 128 then 1
      else if (of_char c :: nat) < 192 then 0
      else if (of_char c :: nat) < 240 then 1
      else 2)"

definition utf16_length :: "string \<Rightarrow> nat" where
  "utf16_length s = sum_list (map utf16_units s)"

text \<open>
  \<^verbatim>\<open>v.length\<close>: \<open>None\<close> where the read throws a TypeError (\<^verbatim>\<open>null\<close> and
  \<^verbatim>\<open>undefined\<close>); the number of elements of an array; the length of a string; the
  property of that name of an object; \<^verbatim>\<open>undefined\<close> for a number or a boolean.
\<close>

fun js_length :: "jsval \<Rightarrow> jsval option" where
  "js_length JUndefined = None"
| "js_length JNull = None"
| "js_length (JArr xs) = Some (JNum (Fin (of_nat (length xs))))"
| "js_length (JStr s) = Some (JNum (Fin (of_nat (utf16_length s))))"
| "js_length (JObj kvs) = Some (get_prop kvs ''length'')"
| "js_length v = Some JUndefined"

section \<open>Strings and numbers of the platform\<close>

definition digit_char :: "nat \<Rightarrow> char" where
  "digit_char d = ''0123456789'' ! d"

fun digits_of_nat :: "nat \<Rightarrow> string" where
  "digits_of_nat n =
     (if n < 10 then [digit_char n] else digits_of_nat (n div 10) @ [digit_char (n mod 10)])"

definition two_digits :: "nat \<Rightarrow> string" where
  "two_digits n = [digit_char ((n div 10) mod 10), digit_char (n mod 10)]"

text \<open>
  Rounding a magnitude to two fraction digits, to the nearest multiple of 1/100 and to
  the larger one at a tie. The result is the number of hundredths.
\<close>

definition hundredths :: "rat \<Rightarrow> nat" where
  "hundredths q = nat \<lfloor>\<bar>q\<bar> * 100 + 1 / 2\<rfloor>"

text \<open>The \<^verbatim>\<open>en-IN\<close> digit grouping: the last three digits, then groups of two.\<close>

fun group_pairs :: "string \<Rightarrow> string" where
  "group_pairs ds =
     (if length ds \<le> 2 then ds
      else group_pairs (take (length ds - 2) ds) @ '','' @ drop (length ds - 2) ds)"

definition group_indian :: "string \<Rightarrow> string" where
  "group_indian ds =
     (if length ds \<le> 3 then ds
      else group_pairs (take (length ds - 3) ds) @ '','' @ drop (length ds - 3) ds)"

definition infinity_sign :: string where
  "infinity_sign = [CHR 0xE2, CHR 0x88, CHR 0x9E]"

definition rupee_sign :: string where
  "rupee_sign = [CHR 0xE2, CHR 0x82, CHR 0xB9]"

text \<open>
  A piece of rendered text: a literal string; \<^verbatim>\<open>${v}\<close>, the string conversion of a
  value, kept as the value; or the \<^verbatim>\<open>en-IN\<close> text with two fraction digits of the
  double with a given exact value, kept as that value where the model does not spell
  the text out.
\<close>

datatype part = Lit string | Str jsval | LocaleText rat

definition pow10 :: "int \<Rightarrow> rat" where
  "pow10 i = (if 0 \<le> i then 10 ^ nat i else 1 / 10 ^ nat (- i))"

text \<open>
  A decimal of at most 15 significant digits in the range of the normal doubles. Such
  a decimal is the shortest one that denotes its double, so the digits that the
  platform's number formatting starts from are its own.
\<close>

definition short_decimal :: "rat \<Rightarrow> bool" where
  "short_decimal q =
     (pow2 (- 1022) \<le> \<bar>q\<bar> \<and> \<bar>q\<bar> < 10 ^ 300 \<and>
      (\<exists>j \<in> {- 340 .. 300}.
         of_int \<lfloor>\<bar>q\<bar> / pow10 j\<rfloor> = \<bar>q\<bar> / pow10 j \<and> \<bar>q\<bar> / pow10 j < 10 ^ 15))"

definition locale_digits :: "rat \<Rightarrow> string" where
  "locale_digits q =
     (if q < 0 then ''-'' else '''') @
     group_indian (digits_of_nat (hundredths q div 100)) @ ''.'' @
     two_digits (hundredths q mod 100)"

text \<open>
  \<^verbatim>\<open>x.toLocaleString('en-IN', {minimumFractionDigits: 2, maximumFractionDigits: 2})\<close>.
  The platform takes the shortest decimal that denotes the double, rounds it to two
  fraction digits (half away from zero) and groups the digits. The model spells the
  text out for the zeros and for short decimals, and keeps the value otherwise.
\<close>

fun toLocaleString_enIN :: "jsnum \<Rightarrow> part" where
  "toLocaleString_enIN NaN = Lit ''NaN''"
| "toLocaleString_enIN PosInf = Lit infinity_sign"
| "toLocaleString_enIN NegInf = Lit (''-'' @ infinity_sign)"
| "toLocaleString_enIN NegZero = Lit ''-0.00''"
| "toLocaleString_enIN (Fin q) =
     (case double_of q of
        NaN \<Rightarrow> Lit ''NaN''
      | PosInf \<Rightarrow> Lit infinity_sign
      | NegInf \<Rightarrow> Lit (''-'' @ infinity_sign)
      | NegZero \<Rightarrow> Lit ''-0.00''
      | Fin v \<Rightarrow>
          if v = 0 then Lit ''0.00''
          else if short_decimal q then Lit (locale_digits q)
          else LocaleText v)"

text \<open>
  \<^verbatim>\<open>x.toFixed(2)\<close>: the exact value of the double, rounded to two fraction digits
  (the larger of two nearest). From \<^verbatim>\<open>1e21\<close> on, \<^verbatim>\<open>toFixed\<close> returns the plain
  string conversion of the number.
\<close>

definition fixed_digits :: "rat \<Rightarrow> string" where
  "fixed_digits v =
     (if v < 0 then ''-'' else '''') @
     digits_of_nat (hundredths v div 100) @ ''.'' @ two_digits (hundredths v mod 100)"

fun toFixed2 :: "jsnum \<Rightarrow> part" where
  "toFixed2 NaN = Lit ''NaN''"
| "toFixed2 PosInf = Lit ''Infinity''"
| "toFixed2 NegInf = Lit ''-Infinity''"
| "toFixed2 NegZero = Lit ''0.00''"
| "toFixed2 (Fin q) =
     (case double_of q of
        NaN \<Rightarrow> Lit ''NaN''
      | PosInf \<Rightarrow> Lit ''Infinity''
      | NegInf \<Rightarrow> Lit ''-Infinity''
      | NegZero \<Rightarrow> Lit ''0.00''
      | Fin v \<Rightarrow> if 10 ^ 21 \<le> \<bar>v\<bar> then Str (JNum (Fin q)) else Lit (fixed_digits v))"

subsection \<open>parseFloat\<close>

definition is_digit :: "char \<Rightarrow> bool" where
  "is_digit c = (48 \<le> (of_char c :: nat) \<and> (of_char c :: nat) \<le> 57)"

text \<open>
  White space and line terminators of the language, in UTF-8: the six ASCII ones
  (U+0009 to U+000D, U+0020), U+00A0 in two bytes, and in three bytes U+1680, U+2000 to
  U+200A, U+2028, U+2029, U+202F, U+205F, U+3000 and U+FEFF.
\<close>

definition is_ws1 :: "char \<Rightarrow> bool" where
  "is_ws1 a = ((of_char a :: nat) = 32 \<or> (9 \<le> (of_char a :: nat) \<and> (of_char a :: nat) \<le> 13))"

definition is_ws2 :: "char \<Rightarrow> char \<Rightarrow> bool" where
  "is_ws2 a b = ((of_char a :: nat) = 0xC2 \<and> (of_char b :: nat) = 0xA0)"

definition is_ws3 :: "char \<Rightarrow> char \<Rightarrow> char \<Rightarrow> bool" where
  "is_ws3 a b c =
     (((of_char a :: nat) = 0xE1 \<and> (of_char b :: nat) = 0x9A \<and> (of_char c :: nat) = 0x80) \<or>
      ((of_char a :: nat) = 0xE2 \<and> (of_char b :: nat) = 0x80 \<and>
         ((0x80 \<le> (of_char c :: nat) \<and> (of_char c :: nat) \<le> 0x8A) \<or>
          (of_char c :: nat) = 0xA8 \<or> (of_char c :: nat) = 0xA9 \<or> (of_char c :: nat) = 0xAF)) \<or>
      ((of_char a :: nat) = 0xE2 \<and> (of_char b :: nat) = 0x81 \<and> (of_char c :: nat) = 0x9F) \<or>
      ((of_char a :: nat) = 0xE3 \<and> (of_char b :: nat) = 0x80 \<and> (of_char c :: nat) = 0x80) \<or>
      ((of_char a :: nat) = 0xEF \<and> (of_char b :: nat) = 0xBB \<and> (of_char c :: nat) = 0xBF))"

text \<open>The string without its leading white space.\<close>

fun skip_ws :: "string \<Rightarrow> string" where
  "skip_ws (a # b # c # r) =
     (if is_ws1 a then skip_ws (b # c # r)
      else if is_ws2 a b then skip_ws (c # r)
      else if is_ws3 a b c then skip_ws r
      else a # b # c # r)"
| "skip_ws [a, b] = (if is_ws1 a then skip_ws [b] else if is_ws2 a b then [] else [a, b])"
| "skip_ws [a] = (if is_ws1 a then [] else [a])"
| "skip_ws [] = []"

definition digits_val :: "string \<Rightarrow> nat" where
  "digits_val ds = foldl (\<lambda>a c. 10 * a + (of_char c - 48)) 0 ds"

text \<open>The exponent part \<^verbatim>\<open>e[+-]digits\<close> at the head of a string; 0 when there is none.\<close>

definition exponent_part :: "string \<Rightarrow> int" where
  "exponent_part s =
     (case s of
        [] \<Rightarrow> 0
      | c # r \<Rightarrow>
          if c = CHR ''e'' \<or> c = CHR ''E'' then
            (case r of
               [] \<Rightarrow> 0
             | d # r' \<Rightarrow>
                 if d = CHR ''-'' then - int (digits_val (takeWhile is_digit r'))
                 else if d = CHR ''+'' then int (digits_val (takeWhile is_digit r'))
                 else int (digits_val (takeWhile is_digit r)))
          else 0)"

text \<open>
  The longest prefix that is an unsigned decimal literal (digits, an optional fraction,
  an optional exponent), as its decimal value; \<open>None\<close> when no prefix is one.
\<close>

definition unsigned_decimal :: "string \<Rightarrow> rat option" where
  "unsigned_decimal s =
     (let ip = takeWhile is_digit s;
          r1 = dropWhile is_digit s;
          fp = (case r1 of [] \<Rightarrow> [] | c # r \<Rightarrow> if c = CHR ''.'' then takeWhile is_digit r else []);
          r2 = (case r1 of [] \<Rightarrow> [] | c # r \<Rightarrow> if c = CHR ''.'' then dropWhile is_digit r else r1)
      in if ip = [] \<and> fp = [] then None
         else Some (of_nat (digits_val (ip @ fp)) / 10 ^ length fp * pow10 (exponent_part r2)))"

text \<open>
  \<^verbatim>\<open>parseFloat\<close> of a string: leading white space is dropped, then an optional sign,
  then \<^verbatim>\<open>Infinity\<close> or the longest decimal literal; \<^verbatim>\<open>NaN\<close> when there is neither.
\<close>

definition parseFloat_str :: "string \<Rightarrow> jsnum" where
  "parseFloat_str s =
     (let t = skip_ws s;
          neg = (case t of [] \<Rightarrow> False | c # r \<Rightarrow> c = CHR ''-'');
          u = (case t of [] \<Rightarrow> [] | c # r \<Rightarrow> if c = CHR ''-'' \<or> c = CHR ''+'' then r else t)
      in if take 8 u = ''Infinity'' then (if neg then NegInf else PosInf)
         else (case unsigned_decimal u of
                 None \<Rightarrow> NaN
               | Some q \<Rightarrow> if neg then (if q = 0 then NegZero else Fin (- q)) else Fin q))"

text \<open>
  \<^verbatim>\<open>parseFloat(v)\<close> converts its argument to a string and parses the longest numeric
  prefix. A number converts to a string that parses back to itself (a negative zero
  to \<^verbatim>\<open>0\<close>); \<^verbatim>\<open>undefined\<close>, \<^verbatim>\<open>null\<close>, booleans and objects convert to strings
  with no numeric prefix; an array converts to its elements joined by commas, so only
  its first element counts, and \<^verbatim>\<open>null\<close> or \<^verbatim>\<open>undefined\<close> there is the empty string.
\<close>

fun parseFloat :: "jsval \<Rightarrow> jsnum" where
  "parseFloat (JNum NegZero) = Fin 0"
| "parseFloat (JNum (Fin q)) = (if double_of q = NegZero then Fin 0 else Fin q)"
| "parseFloat (JNum x) = x"
| "parseFloat (JStr s) = parseFloat_str s"
| "parseFloat (JArr []) = NaN"
| "parseFloat (JArr (v # vs)) = parseFloat v"
| "parseFloat v = NaN"

subsection \<open>JSON text\<close>

text \<open>
  The value that the text \<^verbatim>\<open>JSON.stringify(v)\<close> denotes; \<open>None\<close> where
  \<^verbatim>\<open>JSON.stringify\<close> returns \<^verbatim>\<open>undefined\<close>. A property whose value is
  \<^verbatim>\<open>undefined\<close> is left out; \<^verbatim>\<open>undefined\<close> in an array, \<^verbatim>\<open>NaN\<close> and the
  infinities are written as \<^verbatim>\<open>null\<close>; a negative zero is written as \<^verbatim>\<open>0\<close>.
\<close>

definition json_num :: "jsnum \<Rightarrow> jsval" where
  "json_num x =
     (case x of
        Fin q \<Rightarrow>
          (case double_of q of
             Fin v \<Rightarrow> JNum (Fin q)
           | NegZero \<Rightarrow> JNum (Fin 0)
           | _ \<Rightarrow> JNull)
      | NegZero \<Rightarrow> JNum (Fin 0)
      | _ \<Rightarrow> JNull)"

fun json_of :: "jsval \<Rightarrow> jsval option"
  and json_elems :: "jsval list \<Rightarrow> jsval list"
  and json_props :: "(string \<times> jsval) list \<Rightarrow> (string \<times> jsval) list" where
  "json_of JUndefined = None"
| "json_of JNull = Some JNull"
| "json_of (JBool b) = Some (JBool b)"
| "json_of (JNum x) = Some (json_num x)"
| "json_of (JStr s) = Some (JStr s)"
| "json_of (JArr xs) = Some (JArr (json_elems xs))"
| "json_of (JObj kvs) = Some (JObj (json_props kvs))"
| "json_elems [] = []"
| "json_elems (x # xs) = (case json_of x of None \<Rightarrow> JNull | Some w \<Rightarrow> w) # json_elems xs"
| "json_props [] = []"
| "json_props ((k, v) # kvs) =
     (case json_of v of None \<Rightarrow> json_props kvs | Some w \<Rightarrow> (k, w) # json_props kvs)"

text \<open>
  The values that \<^verbatim>\<open>JSON.stringify\<close> writes as they are: no \<^verbatim>\<open>undefined\<close>, and
  numbers that are finite doubles other than the negative zero.
\<close>

definition plain_number :: "jsnum \<Rightarrow> bool" where
  "plain_number x =
     (case x of Fin q \<Rightarrow> (case double_of q of Fin v \<Rightarrow> True | _ \<Rightarrow> False) | _ \<Rightarrow> False)"

fun is_json :: "jsval \<Rightarrow> bool"
  and is_json_elems :: "jsval list \<Rightarrow> bool"
  and is_json_props :: "(string \<times> jsval) list \<Rightarrow> bool" where
  "is_json JUndefined = False"
| "is_json JNull = True"
| "is_json (JBool b) = True"
| "is_json (JNum x) = plain_number x"
| "is_json (JStr s) = True"
| "is_json (JArr xs) = is_json_elems xs"
| "is_json (JObj kvs) = is_json_props kvs"
| "is_json_elems [] = True"
| "is_json_elems (x # xs) = (is_json x \<and> is_json_elems xs)"
| "is_json_props [] = True"
| "is_json_props ((k, v) # kvs) = (is_json v \<and> is_json_props kvs)"

section \<open>The state of the page\<close>

text \<open>
  The script keeps its state in module-level variables and in the page's elements.
  The model threads one record through every function: the variables, the elements the
  script writes, the browser's \<^verbatim>\<open>localStorage\<close> entry, and three logs of what the
  script sends out (notifications shown, requests fetched, files offered for download).
  \<^verbatim>\<open>extractedData.assessee\<close> and \<^verbatim>\<open>extractedData.transactions\<close> hold whatever
  the server's response had under these names, so both are values of any kind.
\<close>

record upload_file =
  file_name :: string
  file_size :: nat

record processing_stats =
  startTime :: int
  endTime :: int
  pageCount :: nat

record extracted_data =
  assessee :: jsval
  transactions :: jsval
  processingStats :: processing_stats

record user_data =
  totalFilesProcessed :: nat
  todayFilesProcessed :: nat
  lastResetDate :: string

datatype ntype = NSuccess | NError | NInfo

type_synonym cell = "part list"

datatype row = PlaceholderRow | DataRow "cell list" | InfoRow nat

datatype viewer = ViewerPlaceholder | ViewerError | ViewerOther

datatype pdf_info = NoPdfLoaded | FileInfo string nat | InfoOther

text \<open>
  The size estimate of the download modal: \<^verbatim>\<open>Math.round(n * 13 * 15 / 1024)\<close>
  kilobytes for the \<open>n\<close> elements of an array, or the estimate that the script
  computes from another length value, kept as that value.
\<close>

datatype size_text = SizeKB nat | SizeFrom jsval

text \<open>
  The body of a request: a form with the file in its field \<^verbatim>\<open>file\<close>, or the text
  \<^verbatim>\<open>JSON.stringify(v)\<close>, kept as the value that the text denotes.
\<close>

datatype body = FormFile upload_file | JsonText "jsval option"

record request =
  url :: string
  http_method :: string
  content_type :: "string option"
  payload :: body

text \<open>
  The elements that the script writes. The fields for counts and for the assessee
  keep the value that the script assigns to \<^verbatim>\<open>textContent\<close>, which the element
  shows as text; \<open>modalPageCount\<close> keeps the decimal digits of the number assigned;
  \<open>modalTime_ms\<close> keeps the elapsed milliseconds and the two counters keep the
  numbers, which the script formats for display. \<open>ViewerOther\<close> and \<open>InfoOther\<close>
  stand for any content that the modelled functions do not write.
\<close>

record dom =
  fileCountEl :: string
  summaryFileCount :: string
  summaryTransactionCount :: jsval
  parseBtn_disabled :: bool
  downloadBtn_disabled :: bool
  confirmDownload_disabled :: bool
  progressBar_shown :: bool
  pdfControls_shown :: bool
  pdfViewer :: viewer
  pdfInfo :: pdf_info
  activePreviewTab :: nat
  excelHeader :: "string list"
  excelBody :: "row list"
  excelInfo :: string
  excelRowInfo :: string
  transactionCounter_shown :: bool
  counterValue :: jsval
  assesseeInfo_visible :: bool
  assesseeName :: jsval
  assesseePAN :: jsval
  assesseeFY :: jsval
  reportModal_shown :: bool
  modalPageCount :: string
  modalTransactionCount :: jsval
  modalTime_ms :: int
  modalFileSize :: size_text
  totalFilesCounter :: nat
  todayFilesCounter :: nat

record state =
  selectedFile :: "upload_file option"
  extractedData :: extracted_data
  pdfDocument :: "nat option"
  currentPage :: nat
  totalPages :: nat
  userData :: user_data
  localStorage :: "user_data option"
  ui :: dom
  notifications :: "(string \<times> ntype) list"
  requests :: "request list"
  downloads :: "(jsval \<times> jsval) list"

text \<open>
  How a call of a function of the script ends: it returns, or it throws a TypeError.
  Either way the state is the one reached at that point.
\<close>

datatype 'a result = Returned 'a | Threw 'a

fun state_of :: "'a result \<Rightarrow> 'a" where
  "state_of (Returned s) = s"
| "state_of (Threw s) = s"

fun threw :: "'a result \<Rightarrow> bool" where
  "threw (Returned s) = False"
| "threw (Threw s) = True"

text \<open>
  The object literal that the script assigns to \<^verbatim>\<open>extractedData\<close> at load, in
  \<^verbatim>\<open>handleFile\<close> and in \<^verbatim>\<open>resetTool\<close>.
\<close>

definition empty_assessee :: jsval where
  "empty_assessee =
     JObj [(''name'', JStr ''''), (''pan'', JStr ''''), (''financialYear'', JStr ''''),
           (''address'', JStr ''''), (''assessmentYear'', JStr '''')]"

definition fresh_data :: extracted_data where
  "fresh_data =
     \<lparr>assessee = empty_assessee, transactions = JArr [],
      processingStats = \<lparr>startTime = 0, endTime = 0, pageCount = 0\<rparr>\<rparr>"

text \<open>
  The state when the script has been loaded: the page's elements are as the HTML has
  them (\<open>page\<close>), the stored entry is what an earlier session left (\<open>stored\<close>), and
  \<open>today\<close> is \<^verbatim>\<open>new Date().toDateString()\<close>.
\<close>

definition initial_state :: "dom \<Rightarrow> user_data option \<Rightarrow> string \<Rightarrow> state" where
  "initial_state page stored today =
     \<lparr>selectedFile = None, extractedData = fresh_data, pdfDocument = None,
      currentPage = 1, totalPages = 0,
      userData = \<lparr>totalFilesProcessed = 0, todayFilesProcessed = 0, lastResetDate = today\<rparr>,
      localStorage = stored, ui = page, notifications = [], requests = [], downloads = []\<rparr>"

definition showNotification :: "string \<Rightarrow> ntype \<Rightarrow> state \<Rightarrow> state" where
  "showNotification message type s = s\<lparr>notifications := notifications s @ [(message, type)]\<rparr>"

section \<open>Usage counters\<close>

definition updateStatisticsCounters :: "state \<Rightarrow> state" where
  "updateStatisticsCounters s =
     s\<lparr>ui := (ui s)\<lparr>totalFilesCounter := totalFilesProcessed (userData s),
                      todayFilesCounter := todayFilesProcessed (userData s)\<rparr>\<rparr>"

definition saveUserData :: "state \<Rightarrow> state" where
  "saveUserData s = updateStatisticsCounters (s\<lparr>localStorage := Some (userData s)\<rparr>)"

text \<open>\<open>today\<close> is \<^verbatim>\<open>new Date().toDateString()\<close> at the time of the call.\<close>

definition loadUserData :: "string \<Rightarrow> state \<Rightarrow> state" where
  "loadUserData today s =
     updateStatisticsCounters
       (case localStorage s of
          None \<Rightarrow> s
        | Some savedData \<Rightarrow>
            if lastResetDate savedData \<noteq> today
            then saveUserData
                   (s\<lparr>userData := savedData\<lparr>todayFilesProcessed := 0, lastResetDate := today\<rparr>\<rparr>)
            else s\<lparr>userData := savedData\<rparr>)"

definition init :: "string \<Rightarrow> state \<Rightarrow> state" where
  "init today s = loadUserData today s"

section \<open>Selecting and loading a file\<close>

text \<open>
  \<^verbatim>\<open>toLowerCase\<close> is modelled on the ASCII letters (no other character lowers to
  one of \<^verbatim>\<open>.pdf\<close>).
\<close>

definition to_lower_char :: "char \<Rightarrow> char" where
  "to_lower_char c =
     (case map_of (zip ''ABCDEFGHIJKLMNOPQRSTUVWXYZ'' ''abcdefghijklmnopqrstuvwxyz'') c of
        Some l \<Rightarrow> l
      | None \<Rightarrow> c)"

definition toLowerCase :: "string \<Rightarrow> string" where
  "toLowerCase s = map to_lower_char s"

definition endsWith :: "string \<Rightarrow> string \<Rightarrow> bool" where
  "endsWith s t = (length t \<le> length s \<and> drop (length s - length t) s = t)"

definition is_pdf_name :: "string \<Rightarrow> bool" where
  "is_pdf_name n = endsWith (toLowerCase n) ''.pdf''"

definition updateFileCount :: "state \<Rightarrow> state" where
  "updateFileCount s =
     s\<lparr>ui := (ui s)\<lparr>fileCountEl := (if selectedFile s \<noteq> None then ''1'' else ''0''),
                      summaryFileCount := (if selectedFile s \<noteq> None then ''1'' else ''0'')\<rparr>\<rparr>"

text \<open>
  \<^verbatim>\<open>handleFile(file)\<close>, up to the point where it has started \<^verbatim>\<open>loadPDF(file)\<close>;
  the load completes later, in \<open>loadPDF\<close> below.
\<close>

definition handleFile :: "upload_file \<Rightarrow> state \<Rightarrow> state" where
  "handleFile f s =
     (if \<not> is_pdf_name (file_name f) then showNotification ''Please select a PDF file.'' NError s
      else
        let s1 = updateFileCount (s\<lparr>selectedFile := Some f\<rparr>);
            s2 = s1\<lparr>extractedData := fresh_data\<rparr>
        in s2\<lparr>ui := (ui s2)\<lparr>parseBtn_disabled := False, activePreviewTab := 0,
                              pdfInfo := FileInfo (file_name f) (file_size f)\<rparr>\<rparr>)"

text \<open>
  How PDF.js answers \<^verbatim>\<open>getDocument\<close>: a document with its \<^verbatim>\<open>numPages\<close>, or a
  rejection (also when the file's bytes cannot be read).
\<close>

datatype load_outcome = LoadOk nat | LoadFailed

text \<open>
  The rest of \<^verbatim>\<open>loadPDF(file)\<close>, run when the load of \<open>file\<close> has completed. The
  script writes the result into the current state whatever file is selected by then.
  Drawing the page on the canvas (\<^verbatim>\<open>renderPDFPage\<close>) is not modelled.
\<close>

definition loadPDF :: "upload_file \<Rightarrow> load_outcome \<Rightarrow> state \<Rightarrow> state" where
  "loadPDF file outcome s =
     (case outcome of
        LoadOk numPages \<Rightarrow>
          s\<lparr>pdfDocument := Some numPages,
            totalPages := numPages,
            extractedData := (extractedData s)
              \<lparr>processingStats := (processingStats (extractedData s))\<lparr>pageCount := numPages\<rparr>\<rparr>,
            ui := (ui s)\<lparr>pdfControls_shown := True\<rparr>,
            currentPage := 1\<rparr>
      | LoadFailed \<Rightarrow>
          (showNotification
             (''Error loading PDF file. Please ensure it'' @ [CHR 0x27] @ ''s a valid 26AS PDF.'')
             NError s)
          \<lparr>ui := (ui s)\<lparr>pdfViewer := ViewerError\<rparr>\<rparr>)"

section \<open>The table of transactions\<close>

text \<open>
  The thirteen header labels that \<^verbatim>\<open>updateExcelPreview\<close> writes, and the eleven
  that \<^verbatim>\<open>resetTool\<close> writes.
\<close>

definition preview_header :: "string list" where
  "preview_header =
     [''Sr.No'', ''Name of Deductor'', ''TAN of Deductor'', ''Section'', ''Transaction Date'',
      ''Status of Booking*'', ''Date of Booking'', ''Amount Paid / Credited'', ''Tax Deducted'',
      ''TDS Deposited'', ''Net Amount'', ''Rate %'', ''PDF Page No'']"

definition reset_header :: "string list" where
  "reset_header =
     [''Sr.No'', ''Name of Deductor'', ''TAN of Deductor'', ''Section'', ''Transaction Date'',
      ''Status of Booking*'', ''Amount Paid / Credited'', ''Tax Deducted'',
      ''TDS Deposited'', ''Net Amount'', ''Rate %'']"

text \<open>
  \<^verbatim>\<open>formatAmount\<close>, the local function of both rendering loops:
  \<^verbatim>\<open>if (!amt && amt !== 0) return '0.00'; return parseFloat(amt).toLocaleString(...)\<close>.
\<close>

definition formatAmount :: "jsval \<Rightarrow> part" where
  "formatAmount amt =
     (if \<not> truthy amt \<and> \<not> strict_zero amt then Lit ''0.00''
      else toLocaleString_enIN (parseFloat amt))"

text \<open>
  The thirteen cells of the row template, the same in both rendering loops, for an
  element of the sequence that is readable: seven texts with their defaults, four
  amounts after the rupee sign, the rate with two decimals and a percent sign, and the
  page number. A cell is the text that the template puts between the tags of the cell;
  the script assigns the row to \<^verbatim>\<open>innerHTML\<close>, so the browser reads this text as
  markup, which the model does not interpret.
\<close>

definition render_row :: "jsval \<Rightarrow> cell list" where
  "render_row transaction =
     [[Str (js_or (prop_of transaction ''sr_no'') (JStr ''''))],
      [Str (js_or (prop_of transaction ''deductor_name'') (JStr ''Not Available''))],
      [Str (js_or (prop_of transaction ''deductor_tan'') (JStr ''''))],
      [Str (js_or (prop_of transaction ''section'') (JStr ''''))],
      [Str (js_or (prop_of transaction ''transaction_date'') (JStr ''''))],
      [Str (js_or (prop_of transaction ''status'') (JStr ''F''))],
      [Str (js_or (prop_of transaction ''date_of_booking'') (JStr ''''))],
      [Lit rupee_sign, formatAmount (prop_of transaction ''amount_paid'')],
      [Lit rupee_sign, formatAmount (prop_of transaction ''tax_deducted'')],
      [Lit rupee_sign, formatAmount (prop_of transaction ''tds_deposited'')],
      [Lit rupee_sign, formatAmount (prop_of transaction ''net_amount'')],
      [toFixed2 (parseFloat (js_or (prop_of transaction ''rate'') (JNum (Fin 0)))), Lit ''%''],
      [Str (js_or (prop_of transaction ''page_number'') (JStr ''''))]]"

text \<open>
  The rows that a \<^verbatim>\<open>forEach\<close> loop of the script appends for the elements \<open>xs\<close>:
  one row for each element up to the first that is \<^verbatim>\<open>null\<close>, where reading
  \<^verbatim>\<open>transaction.sr_no\<close> throws and the loop ends.
\<close>

definition rows_of :: "jsval list \<Rightarrow> row list" where
  "rows_of xs = map (\<lambda>transaction. DataRow (render_row transaction)) (takeWhile readable xs)"

text \<open>
  \<^verbatim>\<open>updateSummary\<close>: reading \<^verbatim>\<open>extractedData.transactions.length\<close> throws when the
  transactions are \<^verbatim>\<open>null\<close> or \<^verbatim>\<open>undefined\<close>.
\<close>

definition updateSummary :: "state \<Rightarrow> state result" where
  "updateSummary s =
     (case js_length (transactions (extractedData s)) of
        None \<Rightarrow> Threw s
      | Some len \<Rightarrow> Returned (s\<lparr>ui := (ui s)\<lparr>summaryTransactionCount := len\<rparr>\<rparr>))"

text \<open>
  \<^verbatim>\<open>updateExcelPreview\<close>. With a length that is not 0, the header is written and the
  body is cleared; then \<^verbatim>\<open>slice(0, 50)\<close> and \<^verbatim>\<open>forEach\<close> work on an array only (a
  string has \<^verbatim>\<open>slice\<close> but no \<^verbatim>\<open>forEach\<close>), so for anything else the function
  throws before a row is made.
\<close>

definition updateExcelPreview :: "state \<Rightarrow> state result" where
  "updateExcelPreview s =
     (case js_length (transactions (extractedData s)) of
        None \<Rightarrow> Threw s
      | Some len \<Rightarrow>
          if strict_zero len then
            Returned (s\<lparr>ui := (ui s)\<lparr>excelBody := [PlaceholderRow],
                                       excelInfo := ''No data parsed'',
                                       excelRowInfo := ''Showing 0 rows''\<rparr>\<rparr>)
          else
            let s1 = s\<lparr>ui := (ui s)\<lparr>excelHeader := preview_header, excelBody := []\<rparr>\<rparr>
            in (case transactions (extractedData s) of
                  JArr xs \<Rightarrow>
                    let s2 = s1\<lparr>ui := (ui s1)\<lparr>excelBody := rows_of (take 50 xs)\<rparr>\<rparr>
                    in if list_all readable (take 50 xs) then
                         Returned
                           (s2\<lparr>ui := (ui s2)
                               \<lparr>excelBody := rows_of (take 50 xs)
                                  @ (if 50 < length xs then [InfoRow (length xs)] else []),
                                excelInfo := ''Extracted '' @ digits_of_nat (length xs)
                                             @ '' transactions from 26AS PDF'',
                                excelRowInfo := ''Showing '' @ digits_of_nat (min 50 (length xs))
                                                @ '' rows''\<rparr>\<rparr>)
                       else Threw s2
                | _ \<Rightarrow> Threw s1))"

text \<open>
  \<^verbatim>\<open>showAllTransactions\<close>: it returns at once when the length is falsy; otherwise it
  clears the body and loops over an array, or throws for want of \<^verbatim>\<open>forEach\<close>.
\<close>

definition showAllTransactions :: "state \<Rightarrow> state result" where
  "showAllTransactions s =
     (case js_length (transactions (extractedData s)) of
        None \<Rightarrow> Threw s
      | Some len \<Rightarrow>
          if \<not> truthy len then Returned s
          else
            let s1 = s\<lparr>ui := (ui s)\<lparr>excelBody := []\<rparr>\<rparr>
            in (case transactions (extractedData s) of
                  JArr xs \<Rightarrow>
                    let s2 = s1\<lparr>ui := (ui s1)\<lparr>excelBody := rows_of xs\<rparr>\<rparr>
                    in if list_all readable xs then
                         Returned
                           (s2\<lparr>ui := (ui s2)
                               \<lparr>excelRowInfo := ''Showing all '' @ digits_of_nat (length xs)
                                                @ '' rows''\<rparr>\<rparr>)
                       else Threw s2
                | _ \<Rightarrow> Threw s1))"

text \<open>The transaction rows of a table body, in the order in which they stand.\<close>

fun data_rows :: "row list \<Rightarrow> cell list list" where
  "data_rows [] = []"
| "data_rows (DataRow cells # rs) = cells # data_rows rs"
| "data_rows (r # rs) = data_rows rs"

section \<open>The assessee panel\<close>

definition updateAssesseeInfo :: "state \<Rightarrow> state" where
  "updateAssesseeInfo s =
     (let a = assessee (extractedData s) in
      if truthy a \<and>
         (truthy (prop_of a ''name'') \<or> truthy (prop_of a ''pan'') \<or>
          truthy (prop_of a ''financialYear'') \<or> truthy (prop_of a ''financial_year''))
      then
        s\<lparr>ui := (ui s)\<lparr>assesseeInfo_visible := True,
                         assesseeName := js_or (prop_of a ''name'') (JStr ''Not Available''),
                         assesseePAN := js_or (prop_of a ''pan'') (JStr ''Not Available''),
                         assesseeFY := js_or (prop_of a ''financial_year'')
                                         (js_or (prop_of a ''financialYear'')
                                            (JStr ''Not Available''))\<rparr>\<rparr>
      else s)"

section \<open>Parsing: the upload request\<close>

text \<open>
  How a \<^verbatim>\<open>fetch\<close> of the script can fail to deliver a result: the fetch rejects
  (with the error's message); the status is not ok; reading the result throws (with
  the error's message: the body is not JSON, or the result is \<^verbatim>\<open>null\<close>, or its
  \<^verbatim>\<open>success\<close> is truthy and it has no \<^verbatim>\<open>data\<close>); or the result has a falsy
  \<^verbatim>\<open>success\<close> (with the string conversion of its \<^verbatim>\<open>error\<close>, empty when that is
  falsy).
\<close>

datatype fetch_failure =
    FetchError string
  | BadStatus nat
  | BadJson string
  | Rejected string

text \<open>
  The message of the error that reaches the \<^verbatim>\<open>catch\<close> block; \<open>dflt\<close> is the
  right operand of \<^verbatim>\<open>result.error || '...'\<close>.
\<close>

fun failure_message :: "string \<Rightarrow> fetch_failure \<Rightarrow> string" where
  "failure_message dflt (FetchError m) = m"
| "failure_message dflt (BadStatus st) = ''Server error: '' @ digits_of_nat st"
| "failure_message dflt (BadJson m) = m"
| "failure_message dflt (Rejected e) = (if e \<noteq> [] then e else dflt)"

text \<open>
  What comes back from \<^verbatim>\<open>fetch('/upload')\<close>: a failure, or a result with a truthy
  \<^verbatim>\<open>success\<close> and a \<^verbatim>\<open>data\<close>, of which the script reads \<^verbatim>\<open>assessee_info\<close> and
  \<^verbatim>\<open>transactions\<close>: values of any kind, \<^verbatim>\<open>undefined\<close> when absent.
\<close>

datatype upload_outcome =
    UploadFailed fetch_failure
  | UploadParsed jsval jsval

text \<open>
  What \<^verbatim>\<open>parsePDF\<close> does after it has stored the data of a result, up to the
  success notification. The count in that notification is the length of an array, or
  a length that is 0: nothing else gets as far.
\<close>

definition show_parsed :: "state \<Rightarrow> state result" where
  "show_parsed s =
     (case updateSummary s of
        Threw t \<Rightarrow> Threw t
      | Returned t1 \<Rightarrow>
          (case updateExcelPreview t1 of
             Threw t \<Rightarrow> Threw t
           | Returned t2 \<Rightarrow>
               let t3 = updateAssesseeInfo t2 in
               (case js_length (transactions (extractedData t3)) of
                  None \<Rightarrow> Threw t3
                | Some len \<Rightarrow>
                    let t4 = t3\<lparr>ui := (ui t3)\<lparr>transactionCounter_shown := True,
                                                  counterValue := len,
                                                  downloadBtn_disabled := False,
                                                  activePreviewTab := 1\<rparr>\<rparr>
                    in Returned
                         (showNotification
                            (''Successfully parsed ''
                             @ (case transactions (extractedData t3) of
                                  JArr xs \<Rightarrow> digits_of_nat (length xs)
                                | _ \<Rightarrow> ''0'')
                             @ '' transactions from 26AS PDF'') NSuccess t4))))"

text \<open>
  \<^verbatim>\<open>parsePDF\<close>, with the two readings of \<^verbatim>\<open>Date.now()\<close>, the message that the
  engine gives a TypeError, and the outcome of the request. The function is run as one
  step: nothing else happens between its awaits.
\<close>

definition parsePDF :: "int \<Rightarrow> int \<Rightarrow> string \<Rightarrow> upload_outcome \<Rightarrow> state \<Rightarrow> state" where
  "parsePDF now0 now1 type_error outcome s =
     (case selectedFile s of
        None \<Rightarrow> showNotification ''Please select a 26AS PDF file first.'' NError s
      | Some f \<Rightarrow>
          let s1 = s\<lparr>extractedData := (extractedData s)
                      \<lparr>processingStats := (processingStats (extractedData s))\<lparr>startTime := now0\<rparr>\<rparr>\<rparr>;
              s2 = s1\<lparr>ui := (ui s1)\<lparr>parseBtn_disabled := True, downloadBtn_disabled := True,
                                    progressBar_shown := True\<rparr>,
                      requests := requests s1 @
                        [\<lparr>url = ''/upload'', http_method = ''POST'', content_type = None,
                          payload = FormFile f\<rparr>]\<rparr>;
              s3 = (case outcome of
                      UploadParsed assessee_info txs \<Rightarrow>
                        let d = (extractedData s2)
                                  \<lparr>assessee := assessee_info, transactions := txs\<rparr>;
                            d' = d\<lparr>processingStats := (processingStats d)\<lparr>endTime := now1\<rparr>\<rparr>
                        in (case show_parsed (s2\<lparr>extractedData := d'\<rparr>) of
                              Returned t \<Rightarrow> t
                            | Threw t \<Rightarrow>
                                showNotification (''Error parsing PDF: '' @ type_error) NError t)
                    | UploadFailed failure \<Rightarrow>
                        showNotification
                          (''Error parsing PDF: ''
                           @ failure_message ''Unknown error from server'' failure) NError s2)
          in s3\<lparr>ui := (ui s3)\<lparr>parseBtn_disabled := False, progressBar_shown := False\<rparr>\<rparr>)"

section \<open>Downloading the spreadsheet\<close>

text \<open>
  \<^verbatim>\<open>showDownloadModal\<close>. The elapsed time is kept in milliseconds (the script shows
  it in seconds with two decimals); \<^verbatim>\<open>Math.round(n * 13 * 15 / 1024)\<close> is the
  nearest integer, the larger one at a tie.
\<close>

definition showDownloadModal :: "state \<Rightarrow> state result" where
  "showDownloadModal s =
     (let d = extractedData s in
      case js_length (transactions d) of
        None \<Rightarrow> Threw s
      | Some len \<Rightarrow>
          if strict_zero len then
            Returned
              (showNotification ''No data to download. Please parse a 26AS PDF first.'' NError s)
          else
            Returned
              (s\<lparr>ui := (ui s)
                 \<lparr>modalPageCount :=
                    digits_of_nat (if pageCount (processingStats d) \<noteq> 0
                                   then pageCount (processingStats d) else 1),
                  modalTransactionCount := len,
                  modalTime_ms := endTime (processingStats d) - startTime (processingStats d),
                  modalFileSize :=
                    (case transactions d of
                       JArr xs \<Rightarrow> SizeKB ((2 * (length xs * 13 * 15) + 1024) div 2048)
                     | _ \<Rightarrow> SizeFrom len),
                  reportModal_shown := True\<rparr>\<rparr>))"

text \<open>
  What comes back from \<^verbatim>\<open>fetch('/download_excel')\<close>: a failure, or a JSON with a
  truthy \<^verbatim>\<open>success\<close>, of which the script reads \<^verbatim>\<open>download_url\<close> and
  \<^verbatim>\<open>filename\<close>.
\<close>

datatype download_outcome =
    DownloadFailed fetch_failure
  | DownloadReady jsval jsval

text \<open>The object \<^verbatim>\<open>downloadData\<close> that \<^verbatim>\<open>downloadExcelFile\<close> builds.\<close>

definition downloadData :: "state \<Rightarrow> jsval" where
  "downloadData s =
     JObj [(''assessee_info'', assessee (extractedData s)),
           (''transactions'', transactions (extractedData s))]"

text \<open>
  \<^verbatim>\<open>downloadExcelFile\<close>, run as one step with the outcome of its request. The
  request's body is \<^verbatim>\<open>JSON.stringify(downloadData)\<close>. A file is offered by clicking
  an anchor with \<^verbatim>\<open>href = download_url\<close> and \<^verbatim>\<open>download = filename\<close>; the log
  keeps the pair.
\<close>

definition downloadExcelFile :: "download_outcome \<Rightarrow> state \<Rightarrow> state result" where
  "downloadExcelFile outcome s =
     (case js_length (transactions (extractedData s)) of
        None \<Rightarrow> Threw s
      | Some len \<Rightarrow>
          if strict_zero len then Returned (showNotification ''No data to download.'' NError s)
          else
            let s1 = s\<lparr>ui := (ui s)\<lparr>confirmDownload_disabled := True\<rparr>,
                        requests := requests s @
                          [\<lparr>url = ''/download_excel'', http_method = ''POST'',
                            content_type = Some ''application/json'',
                            payload = JsonText (json_of (downloadData s))\<rparr>]\<rparr>;
                s2 = (case outcome of
                        DownloadReady download_url filename \<Rightarrow>
                          let t1 = s1\<lparr>downloads := downloads s1 @ [(download_url, filename)]\<rparr>;
                              t2 = saveUserData
                                     (t1\<lparr>userData := (userData t1)
                                          \<lparr>totalFilesProcessed :=
                                             totalFilesProcessed (userData t1) + 1,
                                           todayFilesProcessed :=
                                             todayFilesProcessed (userData t1) + 1\<rparr>\<rparr>);
                              t3 = t2\<lparr>ui := (ui t2)\<lparr>reportModal_shown := False\<rparr>\<rparr>
                          in showNotification ''Excel file downloaded successfully!'' NSuccess t3
                      | DownloadFailed failure \<Rightarrow>
                          showNotification
                            (''Error generating Excel file: ''
                             @ failure_message ''Failed to generate Excel file'' failure) NError s1)
            in Returned (s2\<lparr>ui := (ui s2)\<lparr>confirmDownload_disabled := False\<rparr>\<rparr>))"

section \<open>Resetting\<close>

definition resetTool :: "state \<Rightarrow> state result" where
  "resetTool s =
     (let s1 = s\<lparr>selectedFile := None, pdfDocument := None, currentPage := 1, totalPages := 0,
                 extractedData := fresh_data\<rparr>;
          s2 = updateFileCount s1;
          s3 = s2\<lparr>ui := (ui s2)
                 \<lparr>summaryTransactionCount := JStr ''0'',
                  parseBtn_disabled := True,
                  downloadBtn_disabled := True,
                  progressBar_shown := False,
                  transactionCounter_shown := False,
                  counterValue := JStr ''0'',
                  assesseeInfo_visible := False,
                  pdfControls_shown := False,
                  pdfViewer := ViewerPlaceholder,
                  pdfInfo := NoPdfLoaded,
                  excelHeader := reset_header\<rparr>\<rparr>
      in case updateExcelPreview s3 of
           Threw t \<Rightarrow> Threw t
         | Returned s4 \<Rightarrow>
             Returned
               (showNotification ''Tool has been reset successfully.'' NSuccess
                  (s4\<lparr>ui := (ui s4)\<lparr>activePreviewTab := 0\<rparr>\<rparr>)))"

section \<open>Sessions\<close>

text \<open>
  What can happen on the page once the script is initialised. Every handler can run in
  every state: the model does not take a disabled button out of the game. A handler
  that throws leaves the state as it is at that point.
\<close>

datatype event =
    SelectFile upload_file
  | PdfLoaded upload_file load_outcome
  | ClickParse int int string upload_outcome
  | ClickShowAll
  | ClickDownload
  | ConfirmDownload download_outcome
  | ClickReset

fun step :: "state \<Rightarrow> event \<Rightarrow> state" where
  "step s (SelectFile f) = handleFile f s"
| "step s (PdfLoaded f outcome) = loadPDF f outcome s"
| "step s (ClickParse now0 now1 type_error outcome) = parsePDF now0 now1 type_error outcome s"
| "step s ClickShowAll = state_of (showAllTransactions s)"
| "step s ClickDownload = state_of (showDownloadModal s)"
| "step s (ConfirmDownload outcome) = state_of (downloadExcelFile outcome s)"
| "step s ClickReset = state_of (resetTool s)"

definition run :: "state \<Rightarrow> event list \<Rightarrow> state" where
  "run s es = foldl step s es"

section \<open>Notions used in the properties\<close>

text \<open>The page count that the script has stored for the current document.\<close>

definition stored_page_count :: "state \<Rightarrow> nat" where
  "stored_page_count s = pageCount (processingStats (extractedData s))"


text \<open>
  The states in which the download guards let a download through: the length of the
  transactions can be read and is not 0.
\<close>

definition downloadable :: "state \<Rightarrow> bool" where
  "downloadable s =
     (case js_length (transactions (extractedData s)) of
        None \<Rightarrow> False
      | Some len \<Rightarrow> \<not> strict_zero len)"

text \<open>The files that the logged requests carry, oldest first.\<close>

definition uploaded_files :: "request list \<Rightarrow> upload_file list" where
  "uploaded_files rs =
     concat (map (\<lambda>r. case payload r of FormFile f \<Rightarrow> [f] | JsonText v \<Rightarrow> []) rs)"

definition only_pdf :: "state \<Rightarrow> bool" where
  "only_pdf s =
     (list_all (\<lambda>f. is_pdf_name (file_name f)) (uploaded_files (requests s)) \<and>
      (case selectedFile s of None \<Rightarrow> True | Some f \<Rightarrow> is_pdf_name (file_name f)))"

text \<open>
  The state in which \<^verbatim>\<open>parsePDF\<close>, run on the file \<open>f\<close>, has stored the data of a
  result and starts to show it.
\<close>

definition result_stored :: "int \<Rightarrow> int \<Rightarrow> jsval \<Rightarrow> jsval \<Rightarrow> upload_file \<Rightarrow> state \<Rightarrow> state" where
  "result_stored now0 now1 assessee_info txs f s =
     (let s1 = s\<lparr>extractedData := (extractedData s)
                 \<lparr>processingStats := (processingStats (extractedData s))\<lparr>startTime := now0\<rparr>\<rparr>\<rparr>;
          s2 = s1\<lparr>ui := (ui s1)\<lparr>parseBtn_disabled := True, downloadBtn_disabled := True,
                                progressBar_shown := True\<rparr>,
                  requests := requests s1 @
                    [\<lparr>url = ''/upload'', http_method = ''POST'', content_type = None,
                      payload = FormFile f\<rparr>]\<rparr>;
          d = (extractedData s2)\<lparr>assessee := assessee_info, transactions := txs\<rparr>;
          d' = d\<lparr>processingStats := (processingStats d)\<lparr>endTime := now1\<rparr>\<rparr>
      in s2\<lparr>extractedData := d'\<rparr>)"

text \<open>A value that is absent, \<^verbatim>\<open>null\<close> or the empty string.\<close>

definition missing :: "jsval \<Rightarrow> bool" where
  "missing v = (v = JUndefined \<or> v = JNull \<or> v = JStr [])"

subsection \<open>A sample session\<close>

text \<open>
  The HTML page is not among the sources; the sample page has its elements as
  \<^verbatim>\<open>resetTool\<close> leaves them. The sample response of the server names the assessee's
  fields as section 6 of the specification does.
\<close>

definition sample_page :: dom where
  "sample_page =
     \<lparr>fileCountEl = ''0'', summaryFileCount = ''0'', summaryTransactionCount = JStr ''0'',
      parseBtn_disabled = True, downloadBtn_disabled = True, confirmDownload_disabled = False,
      progressBar_shown = False, pdfControls_shown = False, pdfViewer = ViewerPlaceholder,
      pdfInfo = NoPdfLoaded, activePreviewTab = 0, excelHeader = reset_header,
      excelBody = [PlaceholderRow], excelInfo = ''No data parsed'',
      excelRowInfo = ''Showing 0 rows'', transactionCounter_shown = False,
      counterValue = JStr ''0'', assesseeInfo_visible = False, assesseeName = JStr '''',
      assesseePAN = JStr '''', assesseeFY = JStr '''', reportModal_shown = False,
      modalPageCount = ''0'', modalTransactionCount = JStr ''0'', modalTime_ms = 0,
      modalFileSize = SizeKB 0, totalFilesCounter = 0, todayFilesCounter = 0\<rparr>"

definition sample_start :: state where
  "sample_start = init ''Tue Nov 03 2026'' (initial_state sample_page None ''Tue Nov 03 2026'')"

definition sample_file :: upload_file where
  "sample_file = \<lparr>file_name = ''Form26AS.PDF'', file_size = 204800\<rparr>"

definition sample_transaction :: jsval where
  "sample_transaction =
     JObj [(''sr_no'', JNum (Fin 1)), (''deductor_name'', JStr ''ACME LTD''),
           (''deductor_tan'', JStr ''DELA12345B''), (''section'', JStr ''194J''),
           (''transaction_date'', JStr ''30-Jun-2023''), (''status'', JStr ''F''),
           (''date_of_booking'', JStr ''15-Jul-2023''), (''amount_paid'', JNum (Fin 50000)),
           (''tax_deducted'', JNum (Fin 5000)), (''tds_deposited'', JNum (Fin 5000)),
           (''net_amount'', JNum (Fin 45000)), (''rate'', JNum (Fin 10)),
           (''page_number'', JNum (Fin 2))]"

text \<open>
  A transaction of a later serial number, for sessions with two transactions. Its rate
  is the literal \<^verbatim>\<open>1.005\<close>, whose double is a little less than 1.005.
\<close>

definition second_transaction :: jsval where
  "second_transaction =
     JObj [(''sr_no'', JNum (Fin 2)), (''deductor_name'', JStr ''ZED LTD''),
           (''deductor_tan'', JStr ''MUMZ00001A''), (''section'', JStr ''194C''),
           (''transaction_date'', JStr ''05-Apr-2023''), (''status'', JStr ''U''),
           (''date_of_booking'', JStr ''20-Apr-2023''), (''amount_paid'', JNum (Fin 120000)),
           (''tax_deducted'', JNum (Fin 2400)), (''tds_deposited'', JNum (Fin 2400)),
           (''net_amount'', JNum (Fin 117600)), (''rate'', JNum (Fin (201 / 200))),
           (''page_number'', JNum (Fin 3))]"

definition sample_assessee :: jsval where
  "sample_assessee =
     JObj [(''name'', JStr ''A TAXPAYER''), (''pan'', JStr ''ABCDE1234F''),
           (''financial_year'', JStr ''2023-24''), (''address'', JStr ''''),
           (''assessment_year'', JStr ''2024-25'')]"

text \<open>The message of a TypeError in the sample sessions.\<close>

definition sample_type_error :: string where
  "sample_type_error = ''Cannot read properties of undefined''"

text \<open>
  The sample session up to the completed load: a file is selected and PDF.js loads its
  three pages.
\<close>

definition sample_loaded :: state where
  "sample_loaded =
     run sample_start [SelectFile sample_file, PdfLoaded sample_file (LoadOk 3)]"

text \<open>
  The sample session up to a parse: the server answers with the assessee \<open>a\<close> and the
  transactions \<open>txs\<close>.
\<close>

definition parsed_with :: "jsval \<Rightarrow> jsval \<Rightarrow> state" where
  "parsed_with a txs =
     step sample_loaded (ClickParse 1000 2500 sample_type_error (UploadParsed a txs))"

definition sample_parsed :: state where
  "sample_parsed = parsed_with sample_assessee (JArr [sample_transaction])"

definition sample_no_transactions :: state where
  "sample_no_transactions = parsed_with sample_assessee (JArr [])"

section \<open>Lengths as doubles\<close>

declare bits.simps [simp del]
declare digits_of_nat.simps [simp del]
declare group_pairs.simps [simp del]

lemma bits_bounds: "0 < n \<Longrightarrow> 2 ^ (bits n - 1) \<le> n \<and> n < 2 ^ bits n"
proof (induction n rule: bits.induct)
  case (1 n)
  show ?case
  proof (cases "n div 2 = 0")
    case True
    with "1.prems" have "n = 1" by (simp add: div_eq_0_iff)
    moreover have "bits (Suc 0) = Suc 0"
      by (simp add: bits.simps [of "Suc 0"] bits.simps [of 0])
    ultimately show ?thesis by simp
  next
    case False
    then have pos: "0 < n div 2" by simp
    have b: "bits n = Suc (bits (n div 2))" using "1.prems" by (subst bits.simps) simp
    have bpos: "0 < bits (n div 2)" using pos by (subst bits.simps) simp
    from "1.IH" [OF _ pos] "1.prems"
    have ih: "2 ^ (bits (n div 2) - 1) \<le> n div 2" "n div 2 < 2 ^ bits (n div 2)" by simp_all
    have "2 ^ (bits n - 1) = 2 * (2::nat) ^ (bits (n div 2) - 1)"
      using b bpos by (cases "bits (n div 2)") simp_all
    also have "\<dots> \<le> 2 * (n div 2)" using ih(1) by simp
    also have "\<dots> \<le> n" by simp
    finally have lo: "2 ^ (bits n - 1) \<le> n" .
    have "n < 2 * (n div 2) + 2" by linarith
    also have "\<dots> \<le> 2 * 2 ^ bits (n div 2)" using ih(2) by simp
    finally have hi: "n < 2 ^ bits n" using b by simp
    show ?thesis using lo hi by simp
  qed
qed

lemma pow2_pos: "0 < pow2 i"
  by (simp add: pow2_def)

lemma pow2_diff: "pow2 (int i - int j) = 2 ^ i / 2 ^ j"
proof (cases "j \<le> i")
  case True
  then have "nat (int i - int j) = i - j" by simp
  then show ?thesis using True by (simp add: pow2_def power_diff)
next
  case False
  then have "nat (- (int i - int j)) = j - i" by simp
  moreover have "(2::rat) ^ i / 2 ^ j = 1 / 2 ^ (j - i)"
    using False by (simp add: power_diff field_simps flip: power_add)
  ultimately show ?thesis using False by (simp add: pow2_def)
qed

lemma pow2_neg_le_one: "i \<le> 0 \<Longrightarrow> pow2 i \<le> 1"
  by (simp add: pow2_def field_simps)

lemma pow2_sub_le: "0 \<le> j \<Longrightarrow> pow2 (i - j) \<le> pow2 i"
proof -
  assume j: "0 \<le> j"
  have *: "\<And>a b :: nat. a \<le> b \<Longrightarrow> (2::rat) ^ a \<le> 2 ^ b" by simp
  show ?thesis
  proof (cases "0 \<le> i - j")
    case True
    then have "nat (i - j) \<le> nat i" using j by simp
    then show ?thesis using True j * by (simp add: pow2_def)
  next
    case False
    show ?thesis
    proof (cases "0 \<le> i")
      case True
      have "pow2 (i - j) \<le> 1" using False by (simp add: pow2_neg_le_one)
      also have "\<dots> \<le> pow2 i" using True by (simp add: pow2_def)
      finally show ?thesis .
    next
      case F2: False
      then have "nat (- i) \<le> nat (- (i - j))" using j by simp
      then have "(2::rat) ^ nat (- i) \<le> 2 ^ nat (- (i - j))" by (rule *)
      then show ?thesis using False F2 by (simp add: pow2_def frac_le)
    qed
  qed
qed

lemma floor_log2_le: assumes "0 < a" shows "pow2 (floor_log2 a) \<le> a"
proof -
  obtain p d where pd: "quotient_of a = (p, d)" by (cases "quotient_of a")
  then have d: "0 < d" and a: "a = of_int p / of_int d"
    using quotient_of_denom_pos quotient_of_div by blast+
  have p: "0 < p" using assms a d by (simp add: zero_less_divide_iff)
  define bp where "bp = bits (nat p)"
  define bd where "bd = bits (nat d)"
  have bpb: "2 ^ (bp - 1) \<le> nat p" using bits_bounds [of "nat p"] p by (simp add: bp_def)
  have bdb: "nat d < 2 ^ bd" using bits_bounds [of "nat d"] d by (simp add: bd_def)
  have bp1: "1 \<le> bp" using p unfolding bp_def by (subst bits.simps) simp
  have fl: "floor_log2 a =
              (if pow2 (int bp - int bd) \<le> a then int bp - int bd else int bp - int bd - 1)"
    by (simp add: floor_log2_def pd bp_def bd_def Let_def)
  show ?thesis
  proof (cases "pow2 (int bp - int bd) \<le> a")
    case True
    then show ?thesis by (simp add: fl)
  next
    case False
    have e: "int bp - int bd - 1 = int (bp - 1) - int bd" using bp1 by simp
    have "(2::rat) ^ (bp - 1) \<le> of_int p"
    proof -
      have "of_nat (2 ^ (bp - 1)) \<le> (of_nat (nat p) :: rat)" using bpb of_nat_le_iff by blast
      then show ?thesis using p by simp
    qed
    moreover have "(of_int d :: rat) \<le> 2 ^ bd"
    proof -
      have "(of_nat (nat d) :: rat) \<le> of_nat (2 ^ bd)"
        using bdb of_nat_le_iff less_imp_le by blast
      then show ?thesis using d by simp
    qed
    ultimately have "(2::rat) ^ (bp - 1) / 2 ^ bd \<le> of_int p / of_int d"
      using d p by (intro frac_le) simp_all
    then have le: "(2::rat) ^ (bp - 1) / 2 ^ bd \<le> a" by (simp only: a)
    have "floor_log2 a = int bp - int bd - 1" by (simp only: fl False if_False)
    then have "floor_log2 a = int (bp - 1) - int bd" by (simp only: e)
    then have "pow2 (floor_log2 a) = 2 ^ (bp - 1) / 2 ^ bd" by (simp only: pow2_diff)
    then show ?thesis using le by simp
  qed
qed

lemma round_half_even_pos: "1 \<le> x \<Longrightarrow> 1 \<le> round_half_even x"
proof -
  assume "1 \<le> x"
  then have "1 \<le> \<lfloor>x\<rfloor>" by simp
  then show ?thesis by (simp add: round_half_even_def Let_def)
qed

lemma round_double_nonzero: assumes "1 \<le> q" shows "round_double q \<noteq> 0"
proof -
  define e where "e = max (floor_log2 \<bar>q\<bar>) (- 1022) - 52"
  have q: "0 < q" "\<bar>q\<bar> = q" using assms by simp_all
  have "pow2 e \<le> q"
  proof (cases "floor_log2 q \<le> - 1022")
    case True
    then have "e \<le> 0" by (simp add: e_def q)
    then have "pow2 e \<le> 1" by (rule pow2_neg_le_one)
    then show ?thesis using assms by simp
  next
    case False
    then have "e = floor_log2 q - 52" by (simp add: e_def q)
    then have "pow2 e \<le> pow2 (floor_log2 q)" using pow2_sub_le [of 52 "floor_log2 q"] by simp
    also have "\<dots> \<le> q" using floor_log2_le q by simp
    finally show ?thesis .
  qed
  then have "1 \<le> \<bar>q\<bar> / pow2 e" using pow2_pos [of e] q by (simp add: le_divide_eq)
  then have "1 \<le> round_half_even (\<bar>q\<bar> / pow2 e)" by (rule round_half_even_pos)
  then have "of_int (round_half_even (\<bar>q\<bar> / pow2 e)) \<noteq> (0::rat)" by simp
  then show ?thesis using q pow2_pos [of e] by (simp add: round_double_def e_def Let_def)
qed

lemma is_zero_of_nat: "is_zero (Fin (of_nat n)) \<longleftrightarrow> n = 0"
proof (cases "n = 0")
  case True
  then show ?thesis by (simp add: is_zero_def double_of_def round_double_def)
next
  case False
  then have "(1::rat) \<le> of_nat n" by simp
  then have "round_double (of_nat n) \<noteq> 0" by (rule round_double_nonzero)
  then show ?thesis using False by (simp add: is_zero_def double_of_def Let_def)
qed

lemma double_of_zero: "double_of 0 = Fin 0"
  by (simp add: double_of_def round_double_def)

declare is_zero_of_nat [simp]

lemma downloadable_array:
  "transactions (extractedData s) = JArr xs \<Longrightarrow> downloadable s \<longleftrightarrow> xs \<noteq> []"
  by (simp add: downloadable_def)

section \<open>What the helpers leave alone\<close>

lemma showNotification_frame [simp]:
  "selectedFile (showNotification m t s) = selectedFile s"
  "extractedData (showNotification m t s) = extractedData s"
  "pdfDocument (showNotification m t s) = pdfDocument s"
  "currentPage (showNotification m t s) = currentPage s"
  "totalPages (showNotification m t s) = totalPages s"
  "userData (showNotification m t s) = userData s"
  "localStorage (showNotification m t s) = localStorage s"
  "ui (showNotification m t s) = ui s"
  "requests (showNotification m t s) = requests s"
  "downloads (showNotification m t s) = downloads s"
  "notifications (showNotification m t s) = notifications s @ [(m, t)]"
  by (simp_all add: showNotification_def)

lemma updateSummary_frame [simp]:
  "selectedFile (state_of (updateSummary s)) = selectedFile s"
  "extractedData (state_of (updateSummary s)) = extractedData s"
  "pdfDocument (state_of (updateSummary s)) = pdfDocument s"
  "currentPage (state_of (updateSummary s)) = currentPage s"
  "totalPages (state_of (updateSummary s)) = totalPages s"
  "userData (state_of (updateSummary s)) = userData s"
  "localStorage (state_of (updateSummary s)) = localStorage s"
  "requests (state_of (updateSummary s)) = requests s"
  "downloads (state_of (updateSummary s)) = downloads s"
  "notifications (state_of (updateSummary s)) = notifications s"
  by (simp_all add: updateSummary_def split: option.splits)

lemma updateExcelPreview_frame [simp]:
  "selectedFile (state_of (updateExcelPreview s)) = selectedFile s"
  "extractedData (state_of (updateExcelPreview s)) = extractedData s"
  "pdfDocument (state_of (updateExcelPreview s)) = pdfDocument s"
  "currentPage (state_of (updateExcelPreview s)) = currentPage s"
  "totalPages (state_of (updateExcelPreview s)) = totalPages s"
  "userData (state_of (updateExcelPreview s)) = userData s"
  "localStorage (state_of (updateExcelPreview s)) = localStorage s"
  "requests (state_of (updateExcelPreview s)) = requests s"
  "downloads (state_of (updateExcelPreview s)) = downloads s"
  "notifications (state_of (updateExcelPreview s)) = notifications s"
  by (simp_all add: updateExcelPreview_def Let_def split: option.splits jsval.splits)

lemma updateAssesseeInfo_frame [simp]:
  "selectedFile (updateAssesseeInfo s) = selectedFile s"
  "extractedData (updateAssesseeInfo s) = extractedData s"
  "pdfDocument (updateAssesseeInfo s) = pdfDocument s"
  "currentPage (updateAssesseeInfo s) = currentPage s"
  "totalPages (updateAssesseeInfo s) = totalPages s"
  "userData (updateAssesseeInfo s) = userData s"
  "localStorage (updateAssesseeInfo s) = localStorage s"
  "requests (updateAssesseeInfo s) = requests s"
  "downloads (updateAssesseeInfo s) = downloads s"
  "notifications (updateAssesseeInfo s) = notifications s"
  by (simp_all add: updateAssesseeInfo_def Let_def)

lemma updateFileCount_frame [simp]:
  "selectedFile (updateFileCount s) = selectedFile s"
  "extractedData (updateFileCount s) = extractedData s"
  "pdfDocument (updateFileCount s) = pdfDocument s"
  "currentPage (updateFileCount s) = currentPage s"
  "totalPages (updateFileCount s) = totalPages s"
  "userData (updateFileCount s) = userData s"
  "localStorage (updateFileCount s) = localStorage s"
  "requests (updateFileCount s) = requests s"
  "downloads (updateFileCount s) = downloads s"
  "notifications (updateFileCount s) = notifications s"
  by (simp_all add: updateFileCount_def)

lemma saveUserData_frame [simp]:
  "selectedFile (saveUserData s) = selectedFile s"
  "extractedData (saveUserData s) = extractedData s"
  "pdfDocument (saveUserData s) = pdfDocument s"
  "currentPage (saveUserData s) = currentPage s"
  "totalPages (saveUserData s) = totalPages s"
  "userData (saveUserData s) = userData s"
  "localStorage (saveUserData s) = Some (userData s)"
  "requests (saveUserData s) = requests s"
  "downloads (saveUserData s) = downloads s"
  "notifications (saveUserData s) = notifications s"
  by (simp_all add: saveUserData_def updateStatisticsCounters_def)

lemma show_parsed_frame [simp]:
  "selectedFile (state_of (show_parsed s)) = selectedFile s"
  "extractedData (state_of (show_parsed s)) = extractedData s"
  "userData (state_of (show_parsed s)) = userData s"
  "localStorage (state_of (show_parsed s)) = localStorage s"
  "requests (state_of (show_parsed s)) = requests s"
  "downloads (state_of (show_parsed s)) = downloads s"
proof -
  have "selectedFile (state_of (show_parsed s)) = selectedFile s
      \<and> extractedData (state_of (show_parsed s)) = extractedData s
      \<and> userData (state_of (show_parsed s)) = userData s
      \<and> localStorage (state_of (show_parsed s)) = localStorage s
      \<and> requests (state_of (show_parsed s)) = requests s
      \<and> downloads (state_of (show_parsed s)) = downloads s"
  proof (cases "updateSummary s")
    case (Threw t)
    show ?thesis
      using updateSummary_frame [of s] unfolding Threw by (simp add: show_parsed_def Threw)
  next
    case (Returned t1)
    note f1 = updateSummary_frame [of s, unfolded Returned state_of.simps]
    show ?thesis
    proof (cases "updateExcelPreview t1")
      case (Threw t)
      show ?thesis
        using updateExcelPreview_frame [of t1] f1 unfolding Threw
        by (simp add: show_parsed_def Returned Threw)
    next
      case R2: (Returned t2)
      note f2 = updateExcelPreview_frame [of t1, unfolded R2 state_of.simps]
      show ?thesis
        using f1 f2
        by (simp add: show_parsed_def Returned R2 Let_def split: option.splits)
    qed
  qed
  then show
    "selectedFile (state_of (show_parsed s)) = selectedFile s"
    "extractedData (state_of (show_parsed s)) = extractedData s"
    "userData (state_of (show_parsed s)) = userData s"
    "localStorage (state_of (show_parsed s)) = localStorage s"
    "requests (state_of (show_parsed s)) = requests s"
    "downloads (state_of (show_parsed s)) = downloads s"
    by simp_all
qed

lemma state_of_cases: "(case r of Returned t \<Rightarrow> f t | Threw t \<Rightarrow> g t) =
    (if threw r then g (state_of r) else f (state_of r))"
  by (cases r) simp_all

lemma extractedData_parsePDF:
  "extractedData (parsePDF now0 now1 type_error outcome s) =
     (case selectedFile s of
        None \<Rightarrow> extractedData s
      | Some f \<Rightarrow>
          (case outcome of
             UploadFailed e \<Rightarrow>
               (extractedData s)
                 \<lparr>processingStats := (processingStats (extractedData s))\<lparr>startTime := now0\<rparr>\<rparr>
           | UploadParsed a txs \<Rightarrow>
               \<lparr>assessee = a, transactions = txs,
                processingStats =
                  (processingStats (extractedData s))\<lparr>startTime := now0, endTime := now1\<rparr>\<rparr>))"
  by (simp add: parsePDF_def Let_def state_of_cases split: option.splits upload_outcome.splits)

lemma selectedFile_handleFile_pdf:
  "is_pdf_name (file_name f) \<Longrightarrow> selectedFile (handleFile f s) = Some f"
  by (simp add: handleFile_def Let_def)

lemma selectedFile_loadPDF [simp]: "selectedFile (loadPDF f outcome s) = selectedFile s"
  by (simp add: loadPDF_def split: load_outcome.splits)

lemma selectedFile_parsePDF [simp]:
  "selectedFile (parsePDF now0 now1 type_error outcome s) = selectedFile s"
  by (simp add: parsePDF_def Let_def state_of_cases split: option.splits upload_outcome.splits)

lemma showAllTransactions_frame [simp]:
  "selectedFile (state_of (showAllTransactions s)) = selectedFile s"
  "extractedData (state_of (showAllTransactions s)) = extractedData s"
  "userData (state_of (showAllTransactions s)) = userData s"
  "localStorage (state_of (showAllTransactions s)) = localStorage s"
  "requests (state_of (showAllTransactions s)) = requests s"
  "downloads (state_of (showAllTransactions s)) = downloads s"
  "notifications (state_of (showAllTransactions s)) = notifications s"
  by (simp_all add: showAllTransactions_def Let_def split: option.splits jsval.splits)

lemma showDownloadModal_frame [simp]:
  "selectedFile (state_of (showDownloadModal s)) = selectedFile s"
  "extractedData (state_of (showDownloadModal s)) = extractedData s"
  "userData (state_of (showDownloadModal s)) = userData s"
  "localStorage (state_of (showDownloadModal s)) = localStorage s"
  "requests (state_of (showDownloadModal s)) = requests s"
  "downloads (state_of (showDownloadModal s)) = downloads s"
  by (simp_all add: showDownloadModal_def Let_def split: option.splits)

lemma downloadExcelFile_frame [simp]:
  "selectedFile (state_of (downloadExcelFile outcome s)) = selectedFile s"
  "extractedData (state_of (downloadExcelFile outcome s)) = extractedData s"
  by (simp_all add: downloadExcelFile_def Let_def split: option.splits download_outcome.splits)

lemma resetTool_returns:
  "resetTool s =
     Returned (state_of (resetTool s)) \<and>
     selectedFile (state_of (resetTool s)) = None \<and>
     extractedData (state_of (resetTool s)) = fresh_data \<and>
     userData (state_of (resetTool s)) = userData s \<and>
     localStorage (state_of (resetTool s)) = localStorage s \<and>
     requests (state_of (resetTool s)) = requests s \<and>
     downloads (state_of (resetTool s)) = downloads s \<and>
     excelHeader (ui (state_of (resetTool s))) = reset_header \<and>
     excelBody (ui (state_of (resetTool s))) = [PlaceholderRow]"
  by (simp add: resetTool_def Let_def updateExcelPreview_def fresh_data_def double_of_zero
      is_zero_def)

lemma userData_handleFile [simp]:
  "userData (handleFile f s) = userData s"
  "localStorage (handleFile f s) = localStorage s"
  by (simp_all add: handleFile_def Let_def)

lemma userData_loadPDF [simp]:
  "userData (loadPDF f outcome s) = userData s"
  "localStorage (loadPDF f outcome s) = localStorage s"
  by (simp_all add: loadPDF_def split: load_outcome.splits)

lemma userData_parsePDF [simp]:
  "userData (parsePDF now0 now1 type_error outcome s) = userData s"
  "localStorage (parsePDF now0 now1 type_error outcome s) = localStorage s"
  by (simp_all add: parsePDF_def Let_def state_of_cases
      split: option.splits upload_outcome.splits)

lemma requests_parsePDF:
  "requests (parsePDF now0 now1 type_error outcome s) =
     (case selectedFile s of
        None \<Rightarrow> requests s
      | Some f \<Rightarrow>
          requests s @
          [\<lparr>url = ''/upload'', http_method = ''POST'', content_type = None,
            payload = FormFile f\<rparr>])"
  by (simp add: parsePDF_def Let_def state_of_cases split: option.splits upload_outcome.splits)

section \<open>The sample session, evaluated\<close>

lemma digits_small:
  "digits_of_nat 0 = ''0''" "digits_of_nat 1 = ''1''" "digits_of_nat (Suc 0) = ''1''"
  "digits_of_nat 3 = ''3''"
  by (simp_all add: digits_of_nat.simps digit_char_def)

lemma sample_start_eq:
  "sample_start =
     \<lparr>selectedFile = None, extractedData = fresh_data, pdfDocument = None,
      currentPage = 1, totalPages = 0,
      userData = \<lparr>totalFilesProcessed = 0, todayFilesProcessed = 0,
                  lastResetDate = ''Tue Nov 03 2026''\<rparr>,
      localStorage = None, ui = sample_page, notifications = [], requests = [], downloads = []\<rparr>"
  by (simp add: sample_start_def init_def loadUserData_def initial_state_def
      updateStatisticsCounters_def sample_page_def)

lemma sample_file_pdf: "is_pdf_name (file_name sample_file)"
  by (simp add: sample_file_def is_pdf_name_def endsWith_def toLowerCase_def to_lower_char_def)

lemma sample_loaded_eq:
  "sample_loaded = loadPDF sample_file (LoadOk 3) (handleFile sample_file sample_start)"
  by (simp add: sample_loaded_def run_def)

lemma sample_loaded_file: "selectedFile sample_loaded = Some sample_file"
  by (simp add: sample_loaded_eq selectedFile_handleFile_pdf sample_file_pdf)

lemma sample_loaded_data:
  "extractedData sample_loaded =
     \<lparr>assessee = empty_assessee, transactions = JArr [],
      processingStats = \<lparr>startTime = 0, endTime = 0, pageCount = 3\<rparr>\<rparr>"
  by (simp add: sample_loaded_eq loadPDF_def handleFile_def sample_file_pdf Let_def
      fresh_data_def)

lemma sample_loaded_userData:
  "userData sample_loaded =
     \<lparr>totalFilesProcessed = 0, todayFilesProcessed = 0, lastResetDate = ''Tue Nov 03 2026''\<rparr>"
  by (simp add: sample_loaded_eq sample_start_eq)

lemma parsed_with_data:
  "extractedData (parsed_with a txs) =
     \<lparr>assessee = a, transactions = txs,
      processingStats = \<lparr>startTime = 1000, endTime = 2500, pageCount = 3\<rparr>\<rparr>"
  by (simp add: parsed_with_def extractedData_parsePDF sample_loaded_file sample_loaded_data)

lemma parsed_with_file: "selectedFile (parsed_with a txs) = Some sample_file"
  by (simp add: parsed_with_def sample_loaded_file)

lemma parsed_with_userData:
  "userData (parsed_with a txs) =
     \<lparr>totalFilesProcessed = 0, todayFilesProcessed = 0, lastResetDate = ''Tue Nov 03 2026''\<rparr>"
  by (simp add: parsed_with_def sample_loaded_userData)


lemma is_zero_zero [simp]: "is_zero (Fin 0)"
  by (simp add: is_zero_def double_of_zero)

section \<open>Integers as doubles\<close>

lemma bits_zero: "bits 0 = 0"
  by (simp add: bits.simps)

lemma bits_one: "bits (Suc 0) = Suc 0"
  by (simp add: bits.simps [of "Suc 0"] bits_zero)

lemma bits_le: assumes "n < 2 ^ k" shows "bits n \<le> k"
proof (cases "n = 0")
  case True
  then show ?thesis by (simp add: bits_zero)
next
  case False
  then have "(2::nat) ^ (bits n - 1) \<le> n" using bits_bounds [of n] by simp
  from this assms have "(2::nat) ^ (bits n - 1) < 2 ^ k" by (rule le_less_trans)
  then have "bits n - 1 < k" by (rule power_less_imp_less_exp [rotated]) simp
  then show ?thesis by simp
qed

lemma floor_log2_int_le:
  assumes "0 < n" and "n < 2 ^ 53" shows "floor_log2 (of_int n) \<le> 52"
proof -
  have "nat n < 2 ^ 53" using assms by (simp add: nat_less_iff)
  then have "bits (nat n) \<le> 53" by (rule bits_le)
  then show ?thesis by (simp add: floor_log2_def Let_def bits_one)
qed

lemma round_half_even_int: "round_half_even (of_int m) = m"
  by (simp add: round_half_even_def Let_def)

lemma round_double_int: assumes "\<bar>n\<bar> < 2 ^ 53" shows "round_double (of_int n) = of_int n"
proof (cases "n = 0")
  case True
  then show ?thesis by (simp add: round_double_def)
next
  case False
  define e where "e = max (floor_log2 \<bar>of_int n\<bar>) (- 1022) - 52"
  define m where "m = nat (- e)"
  have "floor_log2 (of_int \<bar>n\<bar>) \<le> 52" using floor_log2_int_le [of "\<bar>n\<bar>"] assms False by simp
  then have "floor_log2 \<bar>of_int n\<bar> \<le> 52" by simp
  then have e0: "e \<le> 0" by (simp add: e_def)
  have p: "pow2 e = 1 / 2 ^ m"
  proof (cases "e = 0")
    case True
    then show ?thesis by (simp add: pow2_def m_def)
  next
    case False
    then show ?thesis using e0 by (simp add: pow2_def m_def)
  qed
  have "\<bar>of_int n :: rat\<bar> / pow2 e = of_int (\<bar>n\<bar> * 2 ^ m)" by (simp add: p)
  then have "round_half_even (\<bar>of_int n\<bar> / pow2 e) = \<bar>n\<bar> * 2 ^ m"
    by (simp only: round_half_even_int)
  then have "round_double (of_int n) = sgn (of_int n) * of_int (\<bar>n\<bar> * 2 ^ m) * (1 / 2 ^ m)"
    using False p by (simp add: round_double_def Let_def flip: e_def)
  also have "\<dots> = sgn (of_int n) * of_int \<bar>n\<bar>" by simp
  also have "\<dots> = of_int n" using False by (cases "0 < n") simp_all
  finally show ?thesis .
qed

lemma double_of_int: assumes "\<bar>n\<bar> < 2 ^ 53" shows "double_of (of_int n) = Fin (of_int n)"
proof -
  have "(of_int \<bar>n\<bar> :: rat) < of_int (2 ^ 53)" using assms of_int_less_iff by blast
  then have "\<bar>of_int n :: rat\<bar> < 2 ^ 53" by simp
  also have "(2::rat) ^ 53 \<le> 2 ^ 1024" by (rule power_increasing) simp_all
  finally have "\<not> (2::rat) ^ 1024 \<le> \<bar>of_int n\<bar>" by simp
  then show ?thesis by (simp add: double_of_def round_double_int [OF assms] Let_def)
qed

lemma double_of_numeral:
  "numeral k < (2::int) ^ 53 \<Longrightarrow> double_of (numeral k) = Fin (numeral k)"
  using double_of_int [of "numeral k"] by simp

lemma double_of_one: "double_of 1 = Fin 1"
  using double_of_int [of 1] by simp

lemma short_decimal_int:
  assumes "n \<noteq> 0" and "\<bar>n\<bar> < 10 ^ 15" shows "short_decimal (of_int n)"
proof -
  have "(1::rat) \<le> of_int \<bar>n\<bar>" using assms(1) by simp
  then have one: "(1::rat) \<le> \<bar>of_int n\<bar>" by simp
  have lo: "pow2 (- 1022) \<le> \<bar>of_int n :: rat\<bar>"
    using pow2_neg_le_one [of "- 1022"] one by simp
  have "(of_int \<bar>n\<bar> :: rat) < of_int (10 ^ 15)" using assms(2) of_int_less_iff by blast
  then have hi: "\<bar>of_int n :: rat\<bar> < 10 ^ 15" by simp
  also have "(10::rat) ^ 15 \<le> 10 ^ 300" by (rule power_increasing) simp_all
  finally have hi': "\<bar>of_int n :: rat\<bar> < 10 ^ 300" .
  have "of_int \<lfloor>\<bar>of_int n :: rat\<bar> / pow10 0\<rfloor> = \<bar>of_int n :: rat\<bar> / pow10 0"
    by (simp add: pow10_def flip: of_int_abs)
  moreover have "\<bar>of_int n :: rat\<bar> / pow10 0 < 10 ^ 15" using hi by (simp add: pow10_def)
  ultimately have
    "\<exists>j \<in> {- 340 .. 300}.
       of_int \<lfloor>\<bar>of_int n :: rat\<bar> / pow10 j\<rfloor> = \<bar>of_int n :: rat\<bar> / pow10 j
       \<and> \<bar>of_int n :: rat\<bar> / pow10 j < 10 ^ 15"
    by (intro bexI [of _ 0]) simp_all
  then show ?thesis using lo hi' unfolding short_decimal_def by blast
qed

lemma short_decimal_numeral:
  "numeral k < (10::int) ^ 15 \<Longrightarrow> short_decimal (numeral k)"
  using short_decimal_int [of "numeral k"] by simp

lemma toLocaleString_numeral:
  "numeral k < (10::int) ^ 15 \<Longrightarrow>
     toLocaleString_enIN (Fin (numeral k)) = Lit (locale_digits (numeral k))"
proof -
  assume a: "numeral k < (10::int) ^ 15"
  have "(10::int) ^ 15 < 2 ^ 53" by simp
  then have "numeral k < (2::int) ^ 53" using a by (rule less_trans [rotated])
  then show ?thesis using a by (simp add: double_of_numeral short_decimal_numeral)
qed

lemma toFixed2_numeral:
  "numeral k < (10::int) ^ 15 \<Longrightarrow>
     toFixed2 (Fin (numeral k)) = Lit (fixed_digits (numeral k))"
proof -
  assume a: "numeral k < (10::int) ^ 15"
  have "(10::int) ^ 15 < 2 ^ 53" by simp
  then have b: "numeral k < (2::int) ^ 53" using a by (rule less_trans [rotated])
  have "(of_int (numeral k) :: rat) < of_int (10 ^ 15)" using a of_int_less_iff by blast
  then have "(numeral k :: rat) < 10 ^ 15" by simp
  also have "(10::rat) ^ 15 \<le> 10 ^ 21" by (rule power_increasing) simp_all
  finally have "\<not> (10::rat) ^ 21 \<le> \<bar>numeral k\<bar>" by simp
  then show ?thesis using b by (simp add: double_of_numeral)
qed

lemma parseFloat_numeral:
  "numeral k < (2::int) ^ 53 \<Longrightarrow> parseFloat (JNum (Fin (numeral k))) = Fin (numeral k)"
  by (simp add: double_of_numeral)

lemma is_zero_numeral: "numeral k < (2::int) ^ 53 \<Longrightarrow> \<not> is_zero (Fin (numeral k))"
  by (simp add: is_zero_def double_of_numeral)

lemma hundredths_int: "hundredths (of_int n) = nat (\<bar>n\<bar> * 100)"
proof -
  have "\<lfloor>of_int (\<bar>n\<bar> * 100) + (1 / 2 :: rat)\<rfloor> = \<bar>n\<bar> * 100"
    by (simp only: floor_eq_iff) simp
  then show ?thesis by (simp add: hundredths_def flip: of_int_abs)
qed

lemma hundredths_numeral: "hundredths (numeral k) = numeral k * 100"
  using hundredths_int [of "numeral k"] by (simp add: nat_mult_distrib)

section \<open>A rate and an amount that are not integers\<close>

lemma floor_rat_numeral: "\<lfloor>numeral a / numeral b :: rat\<rfloor> = numeral a div numeral b"
  using floor_divide_of_int_eq [where ?'a = rat, of "numeral a" "numeral b"] by simp

lemma quotient_of_sample_rate: "quotient_of (201 / 200 :: rat) = (201, 200)"
proof -
  have f: "(201 / 200 :: rat) = Fract 201 200"
    using Fract_of_int_quotient [of 201 200] by simp
  have "gcd (201::int) 200 = gcd 200 (201 mod 200)" by (rule gcd_red_int)
  then have "gcd (201::int) 200 = 1" by simp
  then have "coprime (201::int) 200" by (simp only: coprime_iff_gcd_eq_1)
  then have "Rat.normalize (201, 200) = (201, 200)" by (intro normalize_stable) simp_all
  then show ?thesis by (simp only: f quotient_of_Fract)
qed

lemma bits_201: "bits 201 = 8" "bits 200 = 8"
  by (simp_all add: bits.simps)

lemma floor_log2_sample_rate: "floor_log2 (201 / 200) = 0"
  by (simp add: floor_log2_def quotient_of_sample_rate bits_201 pow2_def Let_def)

lemma round_double_sample_rate:
  "round_double (201 / 200) = 4526117625507348 / 4503599627370496"
  by (simp add: round_double_def floor_log2_sample_rate pow2_def round_half_even_def Let_def
      floor_rat_numeral)

lemma double_of_sample_rate:
  "double_of (201 / 200) = Fin (4526117625507348 / 4503599627370496)"
  by (simp add: double_of_def round_double_sample_rate Let_def)

lemma toFixed2_sample_rate: "toFixed2 (Fin (201 / 200)) = Lit ''1.00''"
  by (simp add: double_of_def round_double_sample_rate Let_def fixed_digits_def hundredths_def
      floor_rat_numeral digits_of_nat.simps digit_char_def two_digits_def)

lemma parseFloat_no_break_space:
  "parseFloat_str [CHR 0xC2, CHR 0xA0, CHR ''5'', CHR ''0'', CHR ''0''] = Fin 500"
  by (simp add: parseFloat_str_def unsigned_decimal_def is_ws1_def is_ws2_def is_ws3_def
      is_digit_def digits_val_def exponent_part_def pow10_def Let_def)

lemma formatAmount_no_break_space:
  "formatAmount (JStr [CHR 0xC2, CHR 0xA0, CHR ''5'', CHR ''0'', CHR ''0'']) = Lit ''500.00''"
  by (simp add: formatAmount_def parseFloat_no_break_space double_of_numeral
      short_decimal_numeral locale_digits_def hundredths_numeral group_indian_def
      digits_of_nat.simps digit_char_def two_digits_def)

section \<open>What a parse shows\<close>

lemma updateAssesseeInfo_ui [simp]:
  "excelHeader (ui (updateAssesseeInfo s)) = excelHeader (ui s)"
  "excelBody (ui (updateAssesseeInfo s)) = excelBody (ui s)"
  "excelInfo (ui (updateAssesseeInfo s)) = excelInfo (ui s)"
  "excelRowInfo (ui (updateAssesseeInfo s)) = excelRowInfo (ui s)"
  "summaryTransactionCount (ui (updateAssesseeInfo s)) = summaryTransactionCount (ui s)"
  "parseBtn_disabled (ui (updateAssesseeInfo s)) = parseBtn_disabled (ui s)"
  "downloadBtn_disabled (ui (updateAssesseeInfo s)) = downloadBtn_disabled (ui s)"
  by (simp_all add: updateAssesseeInfo_def Let_def)

lemma assesseeFY_updateAssesseeInfo:
  "assesseeFY (ui (updateAssesseeInfo s)) =
     (if truthy (assessee (extractedData s)) \<and>
         (truthy (prop_of (assessee (extractedData s)) ''name'') \<or>
          truthy (prop_of (assessee (extractedData s)) ''pan'') \<or>
          truthy (prop_of (assessee (extractedData s)) ''financialYear'') \<or>
          truthy (prop_of (assessee (extractedData s)) ''financial_year''))
      then js_or (prop_of (assessee (extractedData s)) ''financial_year'')
             (js_or (prop_of (assessee (extractedData s)) ''financialYear'')
                (JStr ''Not Available''))
      else assesseeFY (ui s))"
  by (auto simp add: updateAssesseeInfo_def Let_def)

lemma updateExcelPreview_array:
  "transactions (extractedData s) = JArr xs \<Longrightarrow> list_all readable (take 50 xs) \<Longrightarrow>
     updateExcelPreview s = Returned (state_of (updateExcelPreview s)) \<and>
     excelBody (ui (state_of (updateExcelPreview s))) =
       (if xs = [] then [PlaceholderRow]
        else rows_of (take 50 xs) @ (if 50 < length xs then [InfoRow (length xs)] else [])) \<and>
     excelHeader (ui (state_of (updateExcelPreview s))) =
       (if xs = [] then excelHeader (ui s) else preview_header) \<and>
     downloadBtn_disabled (ui (state_of (updateExcelPreview s))) = downloadBtn_disabled (ui s) \<and>
     assesseeFY (ui (state_of (updateExcelPreview s))) = assesseeFY (ui s)"
  by (simp add: updateExcelPreview_def Let_def)

lemma show_parsed_array:
  assumes "transactions (extractedData s) = JArr xs" and "list_all readable (take 50 xs)"
  shows "show_parsed s = Returned (state_of (show_parsed s))"
    and "notifications (state_of (show_parsed s)) =
           notifications s @
           [(''Successfully parsed '' @ digits_of_nat (length xs) @ '' transactions from 26AS PDF'',
             NSuccess)]"
    and "excelBody (ui (state_of (show_parsed s))) =
           (if xs = [] then [PlaceholderRow]
            else rows_of (take 50 xs) @ (if 50 < length xs then [InfoRow (length xs)] else []))"
    and "excelHeader (ui (state_of (show_parsed s))) =
           (if xs = [] then excelHeader (ui s) else preview_header)"
    and "\<not> downloadBtn_disabled (ui (state_of (show_parsed s)))"
    and "assesseeFY (ui (state_of (show_parsed s))) = assesseeFY (ui (updateAssesseeInfo s))"
proof -
  define t1 where "t1 = s\<lparr>ui := (ui s)\<lparr>summaryTransactionCount :=
                                        JNum (Fin (of_nat (length xs)))\<rparr>\<rparr>"
  have u: "updateSummary s = Returned t1" using assms(1) by (simp add: updateSummary_def t1_def)
  have tx: "transactions (extractedData t1) = JArr xs" using assms(1) by (simp add: t1_def)
  note p = updateExcelPreview_array [OF tx assms(2)]
  define t2 where "t2 = state_of (updateExcelPreview t1)"
  have r2: "updateExcelPreview t1 = Returned t2" using p by (simp add: t2_def)
  have d2: "extractedData t2 = extractedData t1" "notifications t2 = notifications t1"
    by (simp_all add: t2_def)
  have n1: "notifications t1 = notifications s" "excelHeader (ui t1) = excelHeader (ui s)"
    "assesseeFY (ui t1) = assesseeFY (ui s)" "assessee (extractedData t1) = assessee (extractedData s)"
    by (simp_all add: t1_def)
  have all:
    "show_parsed s = Returned (state_of (show_parsed s)) \<and>
     notifications (state_of (show_parsed s)) =
           notifications s @
           [(''Successfully parsed '' @ digits_of_nat (length xs) @ '' transactions from 26AS PDF'',
             NSuccess)] \<and>
     excelBody (ui (state_of (show_parsed s))) = excelBody (ui t2) \<and>
     excelHeader (ui (state_of (show_parsed s))) = excelHeader (ui t2) \<and>
     \<not> downloadBtn_disabled (ui (state_of (show_parsed s))) \<and>
     assesseeFY (ui (state_of (show_parsed s))) = assesseeFY (ui (updateAssesseeInfo t2))"
    using tx d2 n1 by (simp add: show_parsed_def u r2 Let_def)
  have a2: "assessee (extractedData t2) = assessee (extractedData s)" using d2 n1 by simp
  have f2: "assesseeFY (ui t2) = assesseeFY (ui s)" using p n1 by (simp add: t2_def)
  have fy: "assesseeFY (ui (updateAssesseeInfo t2)) = assesseeFY (ui (updateAssesseeInfo s))"
    by (simp only: assesseeFY_updateAssesseeInfo a2 f2)
  show "show_parsed s = Returned (state_of (show_parsed s))" using all by simp
  show "notifications (state_of (show_parsed s)) =
           notifications s @
           [(''Successfully parsed '' @ digits_of_nat (length xs) @ '' transactions from 26AS PDF'',
             NSuccess)]" using all by simp
  show "excelBody (ui (state_of (show_parsed s))) =
           (if xs = [] then [PlaceholderRow]
            else rows_of (take 50 xs) @ (if 50 < length xs then [InfoRow (length xs)] else []))"
    using all p by (simp add: t2_def)
  show "excelHeader (ui (state_of (show_parsed s))) =
           (if xs = [] then excelHeader (ui s) else preview_header)"
    using all p n1 by (simp add: t2_def)
  show "\<not> downloadBtn_disabled (ui (state_of (show_parsed s)))" using all by simp
  show "assesseeFY (ui (state_of (show_parsed s))) = assesseeFY (ui (updateAssesseeInfo s))"
    using all fy by simp
qed

lemma show_parsed_unreadable:
  "js_length (transactions (extractedData s)) = None \<Longrightarrow>
     show_parsed s = Threw s"
  by (simp add: show_parsed_def updateSummary_def)

lemma result_stored_frame [simp]:
  "selectedFile (result_stored now0 now1 a txs f s) = selectedFile s"
  "assessee (extractedData (result_stored now0 now1 a txs f s)) = a"
  "transactions (extractedData (result_stored now0 now1 a txs f s)) = txs"
  "notifications (result_stored now0 now1 a txs f s) = notifications s"
  "excelHeader (ui (result_stored now0 now1 a txs f s)) = excelHeader (ui s)"
  "excelBody (ui (result_stored now0 now1 a txs f s)) = excelBody (ui s)"
  "assesseeFY (ui (result_stored now0 now1 a txs f s)) = assesseeFY (ui s)"
  by (simp_all add: result_stored_def Let_def)

lemma parsePDF_parsed:
  "selectedFile s = Some f \<Longrightarrow>
     parsePDF now0 now1 type_error (UploadParsed a txs) s =
       (let r = show_parsed (result_stored now0 now1 a txs f s);
            s3 = (if threw r
                  then showNotification (''Error parsing PDF: '' @ type_error) NError (state_of r)
                  else state_of r)
        in s3\<lparr>ui := (ui s3)\<lparr>parseBtn_disabled := False, progressBar_shown := False\<rparr>\<rparr>)"
  by (simp add: parsePDF_def result_stored_def Let_def state_of_cases)

lemma parse_array_result:
  assumes "selectedFile s = Some f" and "list_all readable (take 50 xs)"
  shows "notifications (parsePDF now0 now1 type_error (UploadParsed a (JArr xs)) s) =
           notifications s @
           [(''Successfully parsed '' @ digits_of_nat (length xs) @ '' transactions from 26AS PDF'',
             NSuccess)]"
    and "excelBody (ui (parsePDF now0 now1 type_error (UploadParsed a (JArr xs)) s)) =
           (if xs = [] then [PlaceholderRow]
            else rows_of (take 50 xs) @ (if 50 < length xs then [InfoRow (length xs)] else []))"
    and "excelHeader (ui (parsePDF now0 now1 type_error (UploadParsed a (JArr xs)) s)) =
           (if xs = [] then excelHeader (ui s) else preview_header)"
    and "\<not> downloadBtn_disabled
             (ui (parsePDF now0 now1 type_error (UploadParsed a (JArr xs)) s))"
    and "assesseeFY (ui (parsePDF now0 now1 type_error (UploadParsed a (JArr xs)) s)) =
           assesseeFY (ui (updateAssesseeInfo (result_stored now0 now1 a (JArr xs) f s)))"
proof -
  have tx: "transactions (extractedData (result_stored now0 now1 a (JArr xs) f s)) = JArr xs" by simp
  note sp = show_parsed_array [OF tx assms(2)]
  have nt: "\<not> threw (show_parsed (result_stored now0 now1 a (JArr xs) f s))"
    using sp(1) by (cases "show_parsed (result_stored now0 now1 a (JArr xs) f s)") simp_all
  have eq: "parsePDF now0 now1 type_error (UploadParsed a (JArr xs)) s =
          (state_of (show_parsed (result_stored now0 now1 a (JArr xs) f s)))
            \<lparr>ui := (ui (state_of (show_parsed (result_stored now0 now1 a (JArr xs) f s))))
                     \<lparr>parseBtn_disabled := False, progressBar_shown := False\<rparr>\<rparr>"
    using nt by (simp add: parsePDF_parsed [OF assms(1)] Let_def)
  show "notifications (parsePDF now0 now1 type_error (UploadParsed a (JArr xs)) s) =
           notifications s @
           [(''Successfully parsed '' @ digits_of_nat (length xs) @ '' transactions from 26AS PDF'',
             NSuccess)]"
    using sp(2) by (simp add: eq)
  show "excelBody (ui (parsePDF now0 now1 type_error (UploadParsed a (JArr xs)) s)) =
           (if xs = [] then [PlaceholderRow]
            else rows_of (take 50 xs) @ (if 50 < length xs then [InfoRow (length xs)] else []))"
    using sp(3) by (simp add: eq)
  show "excelHeader (ui (parsePDF now0 now1 type_error (UploadParsed a (JArr xs)) s)) =
           (if xs = [] then excelHeader (ui s) else preview_header)"
    using sp(4) by (simp add: eq)
  show "\<not> downloadBtn_disabled
             (ui (parsePDF now0 now1 type_error (UploadParsed a (JArr xs)) s))"
    using sp(5) by (simp add: eq)
  show "assesseeFY (ui (parsePDF now0 now1 type_error (UploadParsed a (JArr xs)) s)) =
           assesseeFY (ui (updateAssesseeInfo (result_stored now0 now1 a (JArr xs) f s)))"
    using sp(6) by (simp add: eq)
qed

lemma parse_throw_result:
  assumes "selectedFile s = Some f" and "js_length txs = None"
  shows "notifications (parsePDF now0 now1 type_error (UploadParsed a txs) s) =
           notifications s @ [(''Error parsing PDF: '' @ type_error, NError)]"
    and "downloadBtn_disabled (ui (parsePDF now0 now1 type_error (UploadParsed a txs) s))"
    and "excelBody (ui (parsePDF now0 now1 type_error (UploadParsed a txs) s)) = excelBody (ui s)"
proof -
  have th: "show_parsed (result_stored now0 now1 a txs f s) = Threw (result_stored now0 now1 a txs f s)"
    using assms(2) by (simp add: show_parsed_unreadable)
  have eq: "parsePDF now0 now1 type_error (UploadParsed a txs) s =
          (showNotification (''Error parsing PDF: '' @ type_error) NError
             (result_stored now0 now1 a txs f s))
            \<lparr>ui := (ui (result_stored now0 now1 a txs f s))
                     \<lparr>parseBtn_disabled := False, progressBar_shown := False\<rparr>\<rparr>"
    by (simp add: parsePDF_parsed [OF assms(1)] th Let_def)
  show "notifications (parsePDF now0 now1 type_error (UploadParsed a txs) s) =
           notifications s @ [(''Error parsing PDF: '' @ type_error, NError)]"
    by (simp add: eq)
  show "downloadBtn_disabled (ui (parsePDF now0 now1 type_error (UploadParsed a txs) s))"
    by (simp add: eq result_stored_def Let_def)
  show "excelBody (ui (parsePDF now0 now1 type_error (UploadParsed a txs) s)) = excelBody (ui s)"
    by (simp add: eq)
qed

lemma parse_failure_result:
  "selectedFile s = Some f \<Longrightarrow>
     notifications (parsePDF now0 now1 type_error (UploadFailed failure) s) =
       notifications s @
         [(''Error parsing PDF: '' @ failure_message ''Unknown error from server'' failure,
           NError)]
     \<and> downloadBtn_disabled (ui (parsePDF now0 now1 type_error (UploadFailed failure) s))
     \<and> excelBody (ui (parsePDF now0 now1 type_error (UploadFailed failure) s))
         = excelBody (ui s)"
  by (simp add: parsePDF_def Let_def)

section \<open>Rows of the sample transactions\<close>

lemma is_zero_one: "\<not> is_zero (Fin 1)"
  by (simp add: is_zero_def double_of_one)

lemma render_sample_transaction:
  "render_row sample_transaction =
     [[Str (JNum (Fin 1))], [Str (JStr ''ACME LTD'')], [Str (JStr ''DELA12345B'')],
      [Str (JStr ''194J'')], [Str (JStr ''30-Jun-2023'')], [Str (JStr ''F'')],
      [Str (JStr ''15-Jul-2023'')],
      [Lit rupee_sign, Lit ''50,000.00''], [Lit rupee_sign, Lit ''5,000.00''],
      [Lit rupee_sign, Lit ''5,000.00''], [Lit rupee_sign, Lit ''45,000.00''],
      [Lit ''10.00'', Lit ''%''], [Str (JNum (Fin 2))]]"
  by (simp add: render_row_def sample_transaction_def get_prop_def js_or_def formatAmount_def
      is_zero_one is_zero_numeral double_of_numeral double_of_one short_decimal_numeral
      locale_digits_def fixed_digits_def hundredths_numeral group_indian_def group_pairs.simps
      digits_of_nat.simps digit_char_def two_digits_def)

lemma render_second_transaction:
  "render_row second_transaction =
     [[Str (JNum (Fin 2))], [Str (JStr ''ZED LTD'')], [Str (JStr ''MUMZ00001A'')],
      [Str (JStr ''194C'')], [Str (JStr ''05-Apr-2023'')], [Str (JStr ''U'')],
      [Str (JStr ''20-Apr-2023'')],
      [Lit rupee_sign, Lit ''1,20,000.00''], [Lit rupee_sign, Lit ''2,400.00''],
      [Lit rupee_sign, Lit ''2,400.00''], [Lit rupee_sign, Lit ''1,17,600.00''],
      [Lit ''1.00'', Lit ''%''], [Str (JNum (Fin 3))]]"
proof -
  have r: "js_or (JNum (Fin (201 / 200))) (JNum (Fin 0)) = JNum (Fin (201 / 200))"
    by (simp add: js_or_def is_zero_def double_of_sample_rate)
  have p: "parseFloat (JNum (Fin (201 / 200))) = Fin (201 / 200)"
    by (simp add: double_of_sample_rate)
  show ?thesis
    by (simp add: render_row_def second_transaction_def get_prop_def r p toFixed2_sample_rate
          del: toFixed2.simps parseFloat.simps)
       (simp add: js_or_def formatAmount_def
          is_zero_one is_zero_numeral double_of_numeral double_of_one short_decimal_numeral
          locale_digits_def hundredths_numeral group_indian_def group_pairs.simps
          digits_of_nat.simps digit_char_def two_digits_def)
qed

section \<open>The page count\<close>





text \<open>
  The stored count is that of the load that completed last. When a file \<open>g\<close> is
  selected, then a file \<open>f\<close>, and the load of \<open>g\<close> completes after that of \<open>f\<close>,
  the selected file is \<open>f\<close> and the count stored is that of \<open>g\<close>: such a completion
  is one of the events that replace the document.
\<close>

lemma late_load_of_earlier_file:
  assumes "is_pdf_name (file_name f)" and "is_pdf_name (file_name g)"
  shows "selectedFile
           (run s [SelectFile g, SelectFile f, PdfLoaded f (LoadOk n), PdfLoaded g (LoadOk m)])
           = Some f
       \<and> stored_page_count
           (run s [SelectFile g, SelectFile f, PdfLoaded f (LoadOk n), PdfLoaded g (LoadOk m)])
           = m"
  using assms
  by (simp add: run_def selectedFile_handleFile_pdf stored_page_count_def loadPDF_def)

section \<open>Zero transactions\<close>

text \<open>
  Claim C2, as the code has it. When the extraction result has no transactions (an
  empty array, or any value whose length is 0), the download path is blocked:
  \<^verbatim>\<open>showDownloadModal\<close> and \<^verbatim>\<open>downloadExcelFile\<close> each only show an error
  notification (no modal, no request, no file). A successful parse with no
  transactions is still shown differently from a failed parse: a success
  notification, the placeholder row and an enabled download button, against an error
  notification and a disabled download button.
\<close>

theorem zero_transactions_block_download:
  "(transactions (extractedData s) = JArr [] \<longrightarrow>
      downloadExcelFile outcome s = Returned (showNotification ''No data to download.'' NError s)
      \<and> showDownloadModal s =
          Returned
            (showNotification ''No data to download. Please parse a 26AS PDF first.'' NError s))
   \<and> (js_length (transactions (extractedData s)) = Some len \<and> strict_zero len \<longrightarrow>
      downloadExcelFile outcome s = Returned (showNotification ''No data to download.'' NError s)
      \<and> showDownloadModal s =
          Returned
            (showNotification ''No data to download. Please parse a 26AS PDF first.'' NError s))
   \<and> (selectedFile s \<noteq> None \<longrightarrow>
        notifications (parsePDF now0 now1 type_error (UploadParsed a (JArr [])) s) =
          notifications s @ [(''Successfully parsed 0 transactions from 26AS PDF'', NSuccess)]
        \<and> excelBody (ui (parsePDF now0 now1 type_error (UploadParsed a (JArr [])) s))
            = [PlaceholderRow]
        \<and> \<not> downloadBtn_disabled
              (ui (parsePDF now0 now1 type_error (UploadParsed a (JArr [])) s))
        \<and> notifications (parsePDF now0 now1 type_error (UploadFailed failure) s) =
          notifications s @
            [(''Error parsing PDF: '' @ failure_message ''Unknown error from server'' failure,
              NError)]
        \<and> downloadBtn_disabled (ui (parsePDF now0 now1 type_error (UploadFailed failure) s)))"
proof -
  have g: "js_length (transactions (extractedData s)) = Some len \<and> strict_zero len \<longrightarrow>
      downloadExcelFile outcome s = Returned (showNotification ''No data to download.'' NError s)
      \<and> showDownloadModal s =
          Returned
            (showNotification ''No data to download. Please parse a 26AS PDF first.'' NError s)"
    by (simp add: downloadExcelFile_def showDownloadModal_def Let_def)
  have e: "transactions (extractedData s) = JArr [] \<longrightarrow>
      downloadExcelFile outcome s = Returned (showNotification ''No data to download.'' NError s)
      \<and> showDownloadModal s =
          Returned
            (showNotification ''No data to download. Please parse a 26AS PDF first.'' NError s)"
    by (simp add: downloadExcelFile_def showDownloadModal_def Let_def)
  have p: "selectedFile s \<noteq> None \<longrightarrow>
        notifications (parsePDF now0 now1 type_error (UploadParsed a (JArr [])) s) =
          notifications s @ [(''Successfully parsed 0 transactions from 26AS PDF'', NSuccess)]
        \<and> excelBody (ui (parsePDF now0 now1 type_error (UploadParsed a (JArr [])) s))
            = [PlaceholderRow]
        \<and> \<not> downloadBtn_disabled
              (ui (parsePDF now0 now1 type_error (UploadParsed a (JArr [])) s))
        \<and> notifications (parsePDF now0 now1 type_error (UploadFailed failure) s) =
          notifications s @
            [(''Error parsing PDF: '' @ failure_message ''Unknown error from server'' failure,
              NError)]
        \<and> downloadBtn_disabled (ui (parsePDF now0 now1 type_error (UploadFailed failure) s))"
  proof
    assume "selectedFile s \<noteq> None"
    then obtain f where f: "selectedFile s = Some f" by blast
    have r: "list_all readable (take 50 ([] :: jsval list))" by simp
    show "notifications (parsePDF now0 now1 type_error (UploadParsed a (JArr [])) s) =
          notifications s @ [(''Successfully parsed 0 transactions from 26AS PDF'', NSuccess)]
        \<and> excelBody (ui (parsePDF now0 now1 type_error (UploadParsed a (JArr [])) s))
            = [PlaceholderRow]
        \<and> \<not> downloadBtn_disabled
              (ui (parsePDF now0 now1 type_error (UploadParsed a (JArr [])) s))
        \<and> notifications (parsePDF now0 now1 type_error (UploadFailed failure) s) =
          notifications s @
            [(''Error parsing PDF: '' @ failure_message ''Unknown error from server'' failure,
              NError)]
        \<and> downloadBtn_disabled (ui (parsePDF now0 now1 type_error (UploadFailed failure) s))"
      using parse_array_result(1,2,4) [OF f r, of now0 now1 type_error a]
        parse_failure_result [OF f, of now0 now1 type_error failure]
      by (simp add: digits_small)
  qed
  show ?thesis using g e p by blast
qed

theorem zero_transactions_block_download_witness:
  "transactions (extractedData sample_no_transactions) = JArr []
   \<and> downloadExcelFile (DownloadReady (JStr ''/download/26AS.xlsx'') (JStr ''26AS.xlsx''))
       sample_no_transactions
     = Returned (showNotification ''No data to download.'' NError sample_no_transactions)
   \<and> showDownloadModal sample_no_transactions
     = Returned
         (showNotification ''No data to download. Please parse a 26AS PDF first.'' NError
            sample_no_transactions)
   \<and> js_length (transactions (extractedData (parsed_with sample_assessee (JStr ''''))))
       = Some (JNum (Fin 0))
   \<and> strict_zero (JNum (Fin 0))
   \<and> showDownloadModal (parsed_with sample_assessee (JStr ''''))
     = Returned
         (showNotification ''No data to download. Please parse a 26AS PDF first.'' NError
            (parsed_with sample_assessee (JStr '''')))
   \<and> selectedFile sample_parsed \<noteq> None
   \<and> notifications
        (parsePDF 3000 3200 sample_type_error (UploadParsed sample_assessee (JArr []))
           sample_parsed) =
       notifications sample_parsed
       @ [(''Successfully parsed 0 transactions from 26AS PDF'', NSuccess)]
   \<and> excelBody (ui
        (parsePDF 3000 3200 sample_type_error (UploadParsed sample_assessee (JArr []))
           sample_parsed))
     = [PlaceholderRow]
   \<and> \<not> downloadBtn_disabled (ui
        (parsePDF 3000 3200 sample_type_error (UploadParsed sample_assessee (JArr []))
           sample_parsed))
   \<and> notifications
        (parsePDF 3000 3200 sample_type_error (UploadFailed (BadStatus 500)) sample_parsed) =
       notifications sample_parsed @ [(''Error parsing PDF: Server error: 500'', NError)]
   \<and> downloadBtn_disabled (ui
        (parsePDF 3000 3200 sample_type_error (UploadFailed (BadStatus 500)) sample_parsed))"
  using zero_transactions_block_download
      [of sample_no_transactions
          "DownloadReady (JStr ''/download/26AS.xlsx'') (JStr ''26AS.xlsx'')"]
    zero_transactions_block_download
      [of "parsed_with sample_assessee (JStr '''')" _ "JNum (Fin 0)"]
    zero_transactions_block_download
      [of sample_parsed _ _ 3000 3200 sample_type_error sample_assessee "BadStatus 500"]
  by (simp add: sample_no_transactions_def sample_parsed_def parsed_with_file parsed_with_data
      utf16_length_def is_zero_def double_of_zero digits_of_nat.simps digit_char_def)

text \<open>
  Claim C2, as stated, fails: after a successful parse that found no transaction, a
  confirmed download sends no request and offers no file, although the server would
  have answered with one, and the modal does not open.
\<close>

theorem zero_transactions_counterexample:
  "transactions (extractedData sample_no_transactions) = JArr []
   \<and> requests (state_of (downloadExcelFile
                 (DownloadReady (JStr ''/download/26AS.xlsx'') (JStr ''26AS.xlsx''))
                 sample_no_transactions))
     = requests sample_no_transactions
   \<and> downloads (state_of (downloadExcelFile
                  (DownloadReady (JStr ''/download/26AS.xlsx'') (JStr ''26AS.xlsx''))
                  sample_no_transactions))
     = downloads sample_no_transactions
   \<and> reportModal_shown (ui (state_of (showDownloadModal sample_no_transactions)))
     = reportModal_shown (ui sample_no_transactions)
   \<and> notifications (state_of (showDownloadModal sample_no_transactions))
     = notifications sample_no_transactions
       @ [(''No data to download. Please parse a 26AS PDF first.'', NError)]"
  by (simp add: downloadExcelFile_def showDownloadModal_def Let_def sample_no_transactions_def
      parsed_with_data)

section \<open>The header of the table\<close>

text \<open>
  Claim C3 says that the header has the thirteen columns of the schema in every state,
  after a reset too. The code at a reset: \<^verbatim>\<open>resetTool\<close> writes a header of eleven
  columns, without \<^verbatim>\<open>Date of Booking\<close> and \<^verbatim>\<open>PDF Page No\<close>, and it stays, since the
  call of \<^verbatim>\<open>updateExcelPreview\<close> that follows finds no transactions and returns
  before its own header of thirteen.
\<close>

theorem reset_header_has_eleven_columns:
  "resetTool s = Returned (state_of (resetTool s))
   \<and> excelHeader (ui (state_of (resetTool s))) =
     [''Sr.No'', ''Name of Deductor'', ''TAN of Deductor'', ''Section'', ''Transaction Date'',
      ''Status of Booking*'', ''Amount Paid / Credited'', ''Tax Deducted'',
      ''TDS Deposited'', ''Net Amount'', ''Rate %'']
   \<and> length (excelHeader (ui (state_of (resetTool s)))) = 11
   \<and> excelHeader (ui (state_of (resetTool s))) \<noteq> preview_header
   \<and> length preview_header = 13
   \<and> excelBody (ui (state_of (resetTool s))) = [PlaceholderRow]"
  using resetTool_returns [of s] by (simp add: reset_header_def preview_header_def)

section \<open>Defaults of the row template\<close>

lemma toLocaleString_zero: "toLocaleString_enIN (Fin 0) = Lit ''0.00''"
  by (simp add: double_of_zero)

lemma formatAmount_missing: "missing v \<Longrightarrow> formatAmount v = Lit ''0.00''"
  by (auto simp add: missing_def formatAmount_def)

lemma formatAmount_zero: assumes "strict_zero v" shows "formatAmount v = Lit ''0.00''"
proof -
  obtain x where v: "v = JNum x" and z: "is_zero x" using assms by (cases v) simp_all
  show ?thesis
  proof (cases x)
    case NegZero
    then show ?thesis using v by (simp add: formatAmount_def double_of_zero is_zero_def)
  next
    case (Fin q)
    then have d: "double_of q = Fin 0 \<or> double_of q = NegZero" using z by (simp add: is_zero_def)
    then show ?thesis
      using v Fin z by (auto simp add: formatAmount_def double_of_zero)
  qed (use z in \<open>simp_all add: is_zero_def\<close>)
qed

lemma formatAmount_not_a_number:
  "truthy v \<Longrightarrow> parseFloat v = NaN \<Longrightarrow> formatAmount v = Lit ''NaN''"
  by (simp add: formatAmount_def)

lemma rate_cell_missing:
  "missing (prop_of t ''rate'') \<Longrightarrow> render_row t ! 11 = [Lit ''0.00'', Lit ''%'']"
proof -
  have z: "fixed_digits 0 = ''0.00''"
    by (simp add: fixed_digits_def hundredths_def two_digits_def digit_char_def
        digits_of_nat.simps)
  assume "missing (prop_of t ''rate'')"
  then have "js_or (prop_of t ''rate'') (JNum (Fin 0)) = JNum (Fin 0)"
    by (auto simp add: missing_def js_or_def)
  then show ?thesis by (simp add: render_row_def double_of_zero z)
qed

lemma status_cell_missing:
  "missing (prop_of t ''status'') \<Longrightarrow> render_row t ! 5 = [Str (JStr ''F'')]"
  by (auto simp add: missing_def render_row_def js_or_def)

lemma parseFloat_not_available: "parseFloat_str ''N/A'' = NaN"
  by (simp add: parseFloat_str_def unsigned_decimal_def is_ws1_def is_ws2_def is_ws3_def
      is_digit_def Let_def)

text \<open>
  Claim C4, as the code has it. In the row of a transaction \<open>t\<close>, a missing status
  (absent, \<^verbatim>\<open>null\<close> or empty) gives \<^verbatim>\<open>F\<close> and a missing rate gives \<^verbatim>\<open>0.00%\<close>. The
  four amount cells are the rupee sign and \<^verbatim>\<open>formatAmount\<close> of the four amount
  fields, and for every value \<open>v\<close>: a missing one is formatted as \<^verbatim>\<open>0.00\<close>; the number
  0 is formatted as \<^verbatim>\<open>0.00\<close> too, through the number formatting; and a value that is
  not missing and that \<^verbatim>\<open>parseFloat\<close> cannot read (a string with no numeric prefix,
  \<^verbatim>\<open>true\<close>, an object) is formatted as \<^verbatim>\<open>NaN\<close>, not as \<^verbatim>\<open>0.00\<close>. No error is
  raised.
\<close>

theorem missing_field_defaults:
  "(missing (prop_of t ''status'') \<longrightarrow> render_row t ! 5 = [Str (JStr ''F'')])
   \<and> (missing (prop_of t ''rate'') \<longrightarrow> render_row t ! 11 = [Lit ''0.00'', Lit ''%''])
   \<and> take 4 (drop 7 (render_row t)) =
       [[Lit rupee_sign, formatAmount (prop_of t ''amount_paid'')],
        [Lit rupee_sign, formatAmount (prop_of t ''tax_deducted'')],
        [Lit rupee_sign, formatAmount (prop_of t ''tds_deposited'')],
        [Lit rupee_sign, formatAmount (prop_of t ''net_amount'')]]
   \<and> (missing v \<longrightarrow> formatAmount v = Lit ''0.00'')
   \<and> (strict_zero v \<longrightarrow> formatAmount v = Lit ''0.00'')
   \<and> (truthy v \<and> parseFloat v = NaN \<longrightarrow> formatAmount v = Lit ''NaN'')"
  using formatAmount_missing [of v] formatAmount_zero [of v] formatAmount_not_a_number [of v]
    rate_cell_missing [of t] status_cell_missing [of t]
  by (simp add: render_row_def)

text \<open>
  A row with nothing but a serial number and an empty tax amount; an amount of 0; an
  amount that is not a number.
\<close>

theorem missing_field_defaults_witness:
  "missing (prop_of (JObj [(''sr_no'', JNum (Fin 1)), (''tax_deducted'', JStr '''')]) ''status'')
   \<and> render_row (JObj [(''sr_no'', JNum (Fin 1)), (''tax_deducted'', JStr '''')]) ! 5
       = [Str (JStr ''F'')]
   \<and> missing (prop_of (JObj [(''sr_no'', JNum (Fin 1)), (''tax_deducted'', JStr '''')]) ''rate'')
   \<and> render_row (JObj [(''sr_no'', JNum (Fin 1)), (''tax_deducted'', JStr '''')]) ! 11
       = [Lit ''0.00'', Lit ''%'']
   \<and> take 4 (drop 7
        (render_row (JObj [(''sr_no'', JNum (Fin 1)), (''tax_deducted'', JStr '''')]))) =
       [[Lit rupee_sign, Lit ''0.00''], [Lit rupee_sign, Lit ''0.00''],
        [Lit rupee_sign, Lit ''0.00''], [Lit rupee_sign, Lit ''0.00'']]
   \<and> missing (JStr '''')
   \<and> formatAmount (JStr '''') = Lit ''0.00''
   \<and> strict_zero (JNum (Fin 0))
   \<and> formatAmount (JNum (Fin 0)) = Lit ''0.00''
   \<and> truthy (JStr ''N/A'')
   \<and> parseFloat (JStr ''N/A'') = NaN
   \<and> formatAmount (JStr ''N/A'') = Lit ''NaN''"
  using missing_field_defaults
      [of "JObj [(''sr_no'', JNum (Fin 1)), (''tax_deducted'', JStr '''')]" "JStr ''''"]
    missing_field_defaults [of _ "JNum (Fin 0)"]
    missing_field_defaults [of _ "JStr ''N/A''"]
    missing_field_defaults [of _ "JUndefined"]
  by (simp add: missing_def get_prop_def parseFloat_not_available)

text \<open>
  Claim C4, as stated, fails for a non-numeric amount: the row of a transaction whose
  \<^verbatim>\<open>amount_paid\<close> is the string \<^verbatim>\<open>N/A\<close> shows \<^verbatim>\<open>NaN\<close> in the eighth cell.
\<close>

theorem non_numeric_amount_counterexample:
  "render_row (JObj [(''sr_no'', JNum (Fin 1)), (''amount_paid'', JStr ''N/A'')]) ! 7
     = [Lit rupee_sign, Lit ''NaN'']
   \<and> [Lit rupee_sign, Lit ''NaN''] \<noteq> [Lit rupee_sign, Lit ''0.00'']"
  by (simp add: render_row_def get_prop_def formatAmount_def parseFloat_not_available)

section \<open>The assessee record\<close>

text \<open>
  Claim C5, as the code has it. The initial state, \<^verbatim>\<open>handleFile\<close> (for a file it
  accepts) and \<^verbatim>\<open>resetTool\<close> each set the assessee to the object with exactly the
  keys \<^verbatim>\<open>name\<close>, \<^verbatim>\<open>pan\<close>, \<^verbatim>\<open>financialYear\<close>, \<^verbatim>\<open>address\<close>, \<^verbatim>\<open>assessmentYear\<close>,
  each the empty string. When the server's result has a truthy \<^verbatim>\<open>success\<close> and a
  \<^verbatim>\<open>data\<close>, \<^verbatim>\<open>parsePDF\<close> stores its \<^verbatim>\<open>assessee_info\<close> as it is, whatever its
  keys, \<^verbatim>\<open>undefined\<close> when it has none; this also when the parse then ends in an
  error notification, because the result's \<^verbatim>\<open>transactions\<close> are missing. A parse
  that fails before that (no file, a failed request, an unreadable result, a falsy
  \<^verbatim>\<open>success\<close>) leaves the assessee as it was.
\<close>

theorem assessee_shape:
  "assessee (extractedData (initial_state page saved today)) = empty_assessee
   \<and> (is_pdf_name (file_name f) \<longrightarrow> assessee (extractedData (handleFile f s)) = empty_assessee)
   \<and> assessee (extractedData (state_of (resetTool s))) = empty_assessee
   \<and> keys_of empty_assessee = [''name'', ''pan'', ''financialYear'', ''address'', ''assessmentYear'']
   \<and> map (prop_of empty_assessee) (keys_of empty_assessee) = replicate 5 (JStr [])
   \<and> (selectedFile s \<noteq> None \<longrightarrow>
        assessee (extractedData
          (parsePDF now0 now1 type_error (UploadParsed assessee_info txs) s)) = assessee_info)
   \<and> (selectedFile s \<noteq> None \<and> js_length txs = None \<longrightarrow>
        notifications (parsePDF now0 now1 type_error (UploadParsed assessee_info txs) s) =
          notifications s @ [(''Error parsing PDF: '' @ type_error, NError)])
   \<and> assessee (extractedData (parsePDF now0 now1 type_error (UploadFailed failure) s))
       = assessee (extractedData s)
   \<and> (selectedFile s = None \<longrightarrow>
        assessee (extractedData (parsePDF now0 now1 type_error outcome s))
          = assessee (extractedData s))"
proof -
  have a: "assessee (extractedData (initial_state page saved today)) = empty_assessee"
    by (simp add: initial_state_def fresh_data_def)
  have b: "is_pdf_name (file_name f) \<longrightarrow>
             assessee (extractedData (handleFile f s)) = empty_assessee"
    by (simp add: handleFile_def Let_def fresh_data_def)
  have c: "assessee (extractedData (state_of (resetTool s))) = empty_assessee"
    using resetTool_returns [of s] by (simp add: fresh_data_def)
  have d: "keys_of empty_assessee =
             [''name'', ''pan'', ''financialYear'', ''address'', ''assessmentYear'']"
    by (simp add: empty_assessee_def)
  have e: "map (prop_of empty_assessee) (keys_of empty_assessee) = replicate 5 (JStr [])"
    by (simp add: empty_assessee_def get_prop_def numeral_eq_Suc)
  have g: "selectedFile s \<noteq> None \<longrightarrow>
        assessee (extractedData
          (parsePDF now0 now1 type_error (UploadParsed assessee_info txs) s)) = assessee_info"
    by (auto simp add: extractedData_parsePDF)
  have h: "assessee (extractedData (parsePDF now0 now1 type_error (UploadFailed failure) s))
       = assessee (extractedData s)"
    by (simp add: extractedData_parsePDF split: option.splits)
  have i: "selectedFile s \<noteq> None \<and> js_length txs = None \<longrightarrow>
        notifications (parsePDF now0 now1 type_error (UploadParsed assessee_info txs) s) =
          notifications s @ [(''Error parsing PDF: '' @ type_error, NError)]"
    using parse_throw_result(1) [of s _ txs now0 now1 type_error assessee_info] by auto
  have j: "selectedFile s = None \<longrightarrow>
        assessee (extractedData (parsePDF now0 now1 type_error outcome s))
          = assessee (extractedData s)"
    by (simp add: extractedData_parsePDF)
  show ?thesis using a b c d e g h i j by blast
qed

text \<open>
  In the sample session: a new file and a reset give the empty record; a result with
  an assessee of one key and no \<^verbatim>\<open>transactions\<close> stores that assessee and shows an
  error; a response with status 500 leaves the assessee of the first parse.
\<close>

theorem assessee_shape_witness:
  "is_pdf_name (file_name sample_file)
   \<and> assessee (extractedData (handleFile sample_file sample_parsed)) = empty_assessee
   \<and> assessee (extractedData (state_of (resetTool sample_parsed))) = empty_assessee
   \<and> selectedFile sample_parsed \<noteq> None
   \<and> js_length JUndefined = None
   \<and> assessee (extractedData
        (parsePDF 3000 3200 sample_type_error
           (UploadParsed (JObj [(''name'', JStr ''B'')]) JUndefined) sample_parsed))
       = JObj [(''name'', JStr ''B'')]
   \<and> notifications
        (parsePDF 3000 3200 sample_type_error
           (UploadParsed (JObj [(''name'', JStr ''B'')]) JUndefined) sample_parsed)
       = notifications sample_parsed
         @ [(''Error parsing PDF: Cannot read properties of undefined'', NError)]
   \<and> assessee (extractedData
        (parsePDF 3000 3200 sample_type_error (UploadFailed (BadStatus 500)) sample_parsed))
       = sample_assessee
   \<and> selectedFile sample_start = None
   \<and> assessee (extractedData
        (parsePDF 3000 3200 sample_type_error
           (UploadParsed (JObj [(''name'', JStr ''B'')]) JUndefined) sample_start))
       = empty_assessee"
  using assessee_shape
      [of _ _ _ sample_file sample_parsed 3000 3200 sample_type_error
          "JObj [(''name'', JStr ''B'')]" JUndefined "BadStatus 500"]
    assessee_shape
      [of _ _ _ _ sample_start 3000 3200 sample_type_error _ _ _
          "UploadParsed (JObj [(''name'', JStr ''B'')]) JUndefined"]
  by (simp add: sample_file_pdf sample_parsed_def parsed_with_file parsed_with_data
      sample_type_error_def sample_start_eq fresh_data_def)

text \<open>
  Claim C5, as stated, fails at the assignment in \<^verbatim>\<open>parsePDF\<close>: when the server names
  the fields \<^verbatim>\<open>financial_year\<close> and \<^verbatim>\<open>assessment_year\<close>, the stored assessee has no
  key \<^verbatim>\<open>financialYear\<close>; and when the result has no \<^verbatim>\<open>assessee_info\<close>, the stored
  assessee is \<^verbatim>\<open>undefined\<close>, with no key at all.
\<close>

theorem assessee_shape_counterexample:
  "keys_of (assessee (extractedData sample_parsed)) =
     [''name'', ''pan'', ''financial_year'', ''address'', ''assessment_year'']
   \<and> keys_of (assessee (extractedData sample_parsed)) \<noteq> keys_of empty_assessee
   \<and> ''financialYear'' \<notin> set (keys_of (assessee (extractedData sample_parsed)))
   \<and> assessee (extractedData (parsed_with JUndefined (JArr [sample_transaction]))) = JUndefined
   \<and> keys_of (assessee (extractedData (parsed_with JUndefined (JArr [sample_transaction]))))
       = []"
  by (simp add: sample_parsed_def parsed_with_data sample_assessee_def empty_assessee_def)

section \<open>The download request\<close>

lemma json_num_plain: "plain_number x \<Longrightarrow> json_num x = JNum x"
  by (auto simp add: plain_number_def json_num_def split: jsnum.splits)

lemma json_of_is_json:
  "is_json v \<longrightarrow> json_of v = Some v"
  "is_json_elems xs \<longrightarrow> json_elems xs = xs"
  "is_json_props kvs \<longrightarrow> json_props kvs = kvs"
  by (induction v and xs and kvs rule: json_of_json_elems_json_props.induct)
     (simp_all add: json_num_plain)

lemma json_of_undefined: "json_of v = None \<longleftrightarrow> v = JUndefined"
  by (cases v) simp_all

lemma plain_number_numeral: "numeral k < (2::int) ^ 53 \<Longrightarrow> plain_number (Fin (numeral k))"
  by (simp add: plain_number_def double_of_numeral)

lemma plain_number_one: "plain_number (Fin 1)"
  by (simp add: plain_number_def double_of_one)

lemma is_json_sample_transaction: "is_json sample_transaction"
  by (simp add: sample_transaction_def plain_number_numeral plain_number_one)

lemma is_json_sample_assessee: "is_json sample_assessee"
  by (simp add: sample_assessee_def)

text \<open>
  Claim C6, as the code has it. When the guard lets a download through,
  \<^verbatim>\<open>downloadExcelFile\<close> sends one request, a POST to \<^verbatim>\<open>/download_excel\<close> whose body
  is the JSON text of the object with the fields \<^verbatim>\<open>assessee_info\<close>, the current
  assessee, and \<^verbatim>\<open>transactions\<close>, the current transactions. The text has the field
  \<^verbatim>\<open>transactions\<close>, and before it the field \<^verbatim>\<open>assessee_info\<close> unless the current
  assessee is \<^verbatim>\<open>undefined\<close>, which \<^verbatim>\<open>JSON.stringify\<close> leaves out; when both are
  values that JSON can write, the text denotes exactly the object of the two fields with
  these values. On a successful response the file is offered under the server's
  \<^verbatim>\<open>download_url\<close> and \<^verbatim>\<open>filename\<close>, and on a failed one no file is offered.
\<close>

theorem download_request_shape:
  assumes "downloadable s"
  shows "requests (state_of (downloadExcelFile outcome s)) =
           requests s @
           [\<lparr>url = ''/download_excel'', http_method = ''POST'',
             content_type = Some ''application/json'',
             payload = JsonText (json_of (downloadData s))\<rparr>]
         \<and> (\<exists>txs. json_of (transactions (extractedData s)) = Some txs \<and>
               json_of (downloadData s) =
                 Some (JObj ((case json_of (assessee (extractedData s)) of
                                None \<Rightarrow> []
                              | Some a \<Rightarrow> [(''assessee_info'', a)])
                             @ [(''transactions'', txs)])))
         \<and> (json_of (assessee (extractedData s)) = None
              \<longleftrightarrow> assessee (extractedData s) = JUndefined)
         \<and> (is_json (assessee (extractedData s)) \<and> is_json (transactions (extractedData s)) \<longrightarrow>
              json_of (downloadData s) =
                Some (JObj [(''assessee_info'', assessee (extractedData s)),
                            (''transactions'', transactions (extractedData s))]))
         \<and> downloads (state_of (downloadExcelFile (DownloadReady download_url filename) s)) =
             downloads s @ [(download_url, filename)]
         \<and> downloads (state_of (downloadExcelFile (DownloadFailed failure) s)) = downloads s"
proof -
  obtain len where len: "js_length (transactions (extractedData s)) = Some len"
    and nz: "\<not> strict_zero len"
    using assms by (auto simp add: downloadable_def split: option.splits)
  have def: "transactions (extractedData s) \<noteq> JUndefined" using len by auto
  then obtain txs where txs: "json_of (transactions (extractedData s)) = Some txs"
    using json_of_undefined [of "transactions (extractedData s)"] by auto
  have r: "requests (state_of (downloadExcelFile outcome s)) =
           requests s @
           [\<lparr>url = ''/download_excel'', http_method = ''POST'',
             content_type = Some ''application/json'',
             payload = JsonText (json_of (downloadData s))\<rparr>]"
    using len nz by (simp add: downloadExcelFile_def Let_def split: download_outcome.splits)
  have b: "json_of (downloadData s) =
                 Some (JObj ((case json_of (assessee (extractedData s)) of
                                None \<Rightarrow> []
                              | Some a \<Rightarrow> [(''assessee_info'', a)])
                             @ [(''transactions'', txs)]))"
    using txs by (simp add: downloadData_def split: option.splits)
  have j: "is_json (assessee (extractedData s)) \<and> is_json (transactions (extractedData s)) \<longrightarrow>
              json_of (downloadData s) =
                Some (JObj [(''assessee_info'', assessee (extractedData s)),
                            (''transactions'', transactions (extractedData s))])"
    using json_of_is_json(1) [of "assessee (extractedData s)"]
      json_of_is_json(1) [of "transactions (extractedData s)"]
    by (simp add: downloadData_def)
  have d1: "downloads (state_of (downloadExcelFile (DownloadReady download_url filename) s)) =
             downloads s @ [(download_url, filename)]"
    using len nz by (simp add: downloadExcelFile_def Let_def)
  have d2: "downloads (state_of (downloadExcelFile (DownloadFailed failure) s)) = downloads s"
    using len nz by (simp add: downloadExcelFile_def Let_def)
  show ?thesis
    using r txs b j d1 d2 json_of_undefined [of "assessee (extractedData s)"] by blast
qed

text \<open>The download in the sample session, with its response and with a failure.\<close>

theorem download_request_shape_witness:
  "downloadable sample_parsed
   \<and> requests (state_of (downloadExcelFile
                 (DownloadReady (JStr ''/download/26AS.xlsx'') (JStr ''26AS.xlsx''))
                 sample_parsed)) =
       requests sample_parsed @
       [\<lparr>url = ''/download_excel'', http_method = ''POST'',
         content_type = Some ''application/json'',
         payload = JsonText
           (Some (JObj [(''assessee_info'', sample_assessee),
                        (''transactions'', JArr [sample_transaction])]))\<rparr>]
   \<and> downloads (state_of (downloadExcelFile
                  (DownloadReady (JStr ''/download/26AS.xlsx'') (JStr ''26AS.xlsx''))
                  sample_parsed)) =
       downloads sample_parsed @ [(JStr ''/download/26AS.xlsx'', JStr ''26AS.xlsx'')]
   \<and> downloads (state_of (downloadExcelFile (DownloadFailed (BadStatus 500)) sample_parsed)) =
       downloads sample_parsed"
proof -
  have d: "downloadable sample_parsed"
    by (simp add: downloadable_array [of _ "[sample_transaction]"] sample_parsed_def
        parsed_with_data)
  have j: "is_json (assessee (extractedData sample_parsed))"
          "is_json (transactions (extractedData sample_parsed))"
    by (simp_all add: sample_parsed_def parsed_with_data is_json_sample_assessee
        is_json_sample_transaction)
  note t = download_request_shape
      [OF d, of "DownloadReady (JStr ''/download/26AS.xlsx'') (JStr ''26AS.xlsx'')"
          "JStr ''/download/26AS.xlsx''" "JStr ''26AS.xlsx''" "BadStatus 500"]
  have e: "assessee (extractedData sample_parsed) = sample_assessee"
          "transactions (extractedData sample_parsed) = JArr [sample_transaction]"
    by (simp_all add: sample_parsed_def parsed_with_data)
  from t j have b: "json_of (downloadData sample_parsed) =
      Some (JObj [(''assessee_info'', assessee (extractedData sample_parsed)),
                  (''transactions'', transactions (extractedData sample_parsed))])"
    by blast
  show ?thesis using d t unfolding b e by blast
qed

text \<open>
  Claim C6, as stated, fails when the server's result had transactions and no
  \<^verbatim>\<open>assessee_info\<close>: the assessee is \<^verbatim>\<open>undefined\<close> then, the download goes through,
  and the body of the request has the one field \<^verbatim>\<open>transactions\<close>.
\<close>

theorem download_request_one_field_counterexample:
  "downloadable (parsed_with JUndefined (JArr [sample_transaction]))
   \<and> requests (state_of (downloadExcelFile
                 (DownloadReady (JStr ''/download/26AS.xlsx'') (JStr ''26AS.xlsx''))
                 (parsed_with JUndefined (JArr [sample_transaction])))) =
       requests (parsed_with JUndefined (JArr [sample_transaction])) @
       [\<lparr>url = ''/download_excel'', http_method = ''POST'',
         content_type = Some ''application/json'',
         payload = JsonText (Some (JObj [(''transactions'', JArr [sample_transaction])]))\<rparr>]
   \<and> keys_of (JObj [(''transactions'', JArr [sample_transaction])]) = [''transactions'']"
proof -
  have j: "json_of sample_transaction = Some sample_transaction"
    using json_of_is_json(1) [of sample_transaction] is_json_sample_transaction by simp
  have d: "downloadable (parsed_with JUndefined (JArr [sample_transaction]))"
    by (simp add: downloadable_array [of _ "[sample_transaction]"] parsed_with_data)
  have len: "js_length (transactions (extractedData
               (parsed_with JUndefined (JArr [sample_transaction])))) = Some (JNum (Fin 1))"
    by (simp add: parsed_with_data)
  have nz: "\<not> strict_zero (JNum (Fin 1))" using is_zero_of_nat [of 1] by simp
  have b: "json_of (downloadData (parsed_with JUndefined (JArr [sample_transaction]))) =
             Some (JObj [(''transactions'', JArr [sample_transaction])])"
    using j by (simp add: downloadData_def parsed_with_data)
  have r: "requests (state_of (downloadExcelFile
                 (DownloadReady (JStr ''/download/26AS.xlsx'') (JStr ''26AS.xlsx''))
                 (parsed_with JUndefined (JArr [sample_transaction])))) =
       requests (parsed_with JUndefined (JArr [sample_transaction])) @
       [\<lparr>url = ''/download_excel'', http_method = ''POST'',
         content_type = Some ''application/json'',
         payload = JsonText (Some (JObj [(''transactions'', JArr [sample_transaction])]))\<rparr>]"
    using nz by (simp add: downloadExcelFile_def len Let_def b)
  show ?thesis using d r by simp
qed

section \<open>The financial year shown\<close>

lemma readable_sample_transaction: "readable sample_transaction"
  by (simp add: sample_transaction_def)

lemma assesseeFY_parsed_with:
  assumes "truthy (prop_of a ''name'')"
  shows "assesseeFY (ui (parsed_with a (JArr [sample_transaction]))) =
           js_or (prop_of a ''financial_year'')
             (js_or (prop_of a ''financialYear'') (JStr ''Not Available''))"
proof -
  have t: "truthy a" using assms by (cases a) simp_all
  have r: "list_all readable (take 50 [sample_transaction])"
    by (simp add: readable_sample_transaction)
  show ?thesis
    using assms t
    by (simp add: parsed_with_def parse_array_result(5) [OF sample_loaded_file r]
        assesseeFY_updateAssesseeInfo)
qed

text \<open>
  Claim C7, as the code has it. The financial year that \<^verbatim>\<open>updateAssesseeInfo\<close> shows
  comes from a chain over two fields: it is \<^verbatim>\<open>financial_year\<close> when that is truthy,
  else \<^verbatim>\<open>financialYear\<close> when that is truthy, else the text \<^verbatim>\<open>Not Available\<close> when
  the name or the PAN is truthy; when none of the four is, the panel is left as it was.
\<close>

theorem financial_year_fallback_chain:
  "(truthy (prop_of (assessee (extractedData s)) ''financial_year'') \<longrightarrow>
      assesseeFY (ui (updateAssesseeInfo s)) =
        prop_of (assessee (extractedData s)) ''financial_year'')
   \<and> (\<not> truthy (prop_of (assessee (extractedData s)) ''financial_year'') \<and>
       truthy (prop_of (assessee (extractedData s)) ''financialYear'') \<longrightarrow>
      assesseeFY (ui (updateAssesseeInfo s)) =
        prop_of (assessee (extractedData s)) ''financialYear'')
   \<and> (\<not> truthy (prop_of (assessee (extractedData s)) ''financial_year'') \<and>
       \<not> truthy (prop_of (assessee (extractedData s)) ''financialYear'') \<and>
       (truthy (prop_of (assessee (extractedData s)) ''name'') \<or>
        truthy (prop_of (assessee (extractedData s)) ''pan'')) \<longrightarrow>
      assesseeFY (ui (updateAssesseeInfo s)) = JStr ''Not Available'')
   \<and> (\<not> truthy (prop_of (assessee (extractedData s)) ''financial_year'') \<and>
       \<not> truthy (prop_of (assessee (extractedData s)) ''financialYear'') \<and>
       \<not> truthy (prop_of (assessee (extractedData s)) ''name'') \<and>
       \<not> truthy (prop_of (assessee (extractedData s)) ''pan'') \<longrightarrow>
      updateAssesseeInfo s = s)"
proof -
  have obj: "\<And>k. truthy (prop_of (assessee (extractedData s)) k) \<Longrightarrow>
                 truthy (assessee (extractedData s))"
    by (cases "assessee (extractedData s)") simp_all
  show ?thesis
    using obj [of "''financial_year''"] obj [of "''financialYear''"] obj [of "''name''"]
      obj [of "''pan''"]
    by (auto simp add: updateAssesseeInfo_def Let_def js_or_def)
qed

text \<open>
  The first case at the sample session, the last one at its start, and the two in
  between at sessions whose server sent other assessee records.
\<close>

theorem financial_year_fallback_chain_witness:
  "truthy (prop_of (assessee (extractedData sample_parsed)) ''financial_year'')
   \<and> assesseeFY (ui (updateAssesseeInfo sample_parsed)) = JStr ''2023-24''
   \<and> \<not> truthy (prop_of (assessee (extractedData
          (parsed_with (JObj [(''name'', JStr ''A''), (''financialYear'', JStr ''2022-23'')])
             (JArr [sample_transaction]))))
          ''financial_year'')
   \<and> assesseeFY (ui (updateAssesseeInfo
        (parsed_with (JObj [(''name'', JStr ''A''), (''financialYear'', JStr ''2022-23'')])
           (JArr [sample_transaction]))))
       = JStr ''2022-23''
   \<and> truthy (prop_of (assessee (extractedData
        (parsed_with (JObj [(''pan'', JStr ''P'')]) (JArr [sample_transaction])))) ''pan'')
   \<and> assesseeFY (ui (updateAssesseeInfo
        (parsed_with (JObj [(''pan'', JStr ''P'')]) (JArr [sample_transaction]))))
       = JStr ''Not Available''
   \<and> \<not> truthy (prop_of (assessee (extractedData sample_start)) ''name'')
   \<and> updateAssesseeInfo sample_start = sample_start"
  using financial_year_fallback_chain [of sample_parsed]
    financial_year_fallback_chain
      [of "parsed_with (JObj [(''name'', JStr ''A''), (''financialYear'', JStr ''2022-23'')])
             (JArr [sample_transaction])"]
    financial_year_fallback_chain
      [of "parsed_with (JObj [(''pan'', JStr ''P'')]) (JArr [sample_transaction])"]
    financial_year_fallback_chain [of sample_start]
  by (simp add: sample_parsed_def parsed_with_data sample_assessee_def get_prop_def
      sample_start_eq fresh_data_def empty_assessee_def)

text \<open>
  Claim C7, as stated, fails: neither field alone determines what is shown. Two
  records with the same \<^verbatim>\<open>financial_year\<close> (none) show different years, by their
  \<^verbatim>\<open>financialYear\<close>; two records with the same \<^verbatim>\<open>financialYear\<close> show different
  years, by their \<^verbatim>\<open>financial_year\<close>.
\<close>

theorem financial_year_two_fields_counterexample:
  "assesseeFY (ui (parsed_with
      (JObj [(''name'', JStr ''A''), (''financialYear'', JStr ''2022-23'')])
      (JArr [sample_transaction])))
     = JStr ''2022-23''
   \<and> assesseeFY (ui (parsed_with
      (JObj [(''name'', JStr ''A''), (''financialYear'', JStr ''2021-22'')])
      (JArr [sample_transaction])))
     = JStr ''2021-22''
   \<and> assesseeFY (ui (parsed_with
      (JObj [(''name'', JStr ''A''), (''financial_year'', JStr ''2023-24''),
             (''financialYear'', JStr ''2022-23'')])
      (JArr [sample_transaction])))
     = JStr ''2023-24''"
  by (simp add: assesseeFY_parsed_with get_prop_def js_or_def)

section \<open>The order of the rows\<close>

lemma data_rows_map: "data_rows (map (\<lambda>t. DataRow (f t)) xs @ ys) = map f xs @ data_rows ys"
  by (induction xs) simp_all

lemma takeWhile_all: "list_all P xs \<Longrightarrow> takeWhile P xs = xs"
  by (induction xs) simp_all

lemma list_all_take: "list_all P xs \<Longrightarrow> list_all P (take n xs)"
  by (simp add: list_all_iff) (meson in_set_takeD)

lemma data_rows_rows_of:
  "list_all readable xs \<Longrightarrow> data_rows (rows_of xs @ ys) = map render_row xs @ data_rows ys"
  by (simp add: rows_of_def takeWhile_all data_rows_map)

lemma data_rows_preview_body:
  assumes "list_all readable ys" and "xs = [] \<longrightarrow> ys = []"
  shows "data_rows (if xs = [] then [PlaceholderRow]
                    else rows_of ys @ (if 50 < length xs then [InfoRow (length xs)] else []))
         = map render_row ys"
  using assms(2) data_rows_rows_of [OF assms(1), of "[]"]
    data_rows_rows_of [OF assms(1), of "[InfoRow (length xs)]"]
  by simp

lemma data_rows_updateExcelPreview:
  assumes "transactions (extractedData s) = JArr xs" and "list_all readable xs"
  shows "data_rows (excelBody (ui (state_of (updateExcelPreview s)))) =
           map render_row (take 50 xs)"
proof -
  have r: "list_all readable (take 50 xs)" using assms(2) by (rule list_all_take)
  have e: "xs = [] \<longrightarrow> take 50 xs = []" by simp
  have b: "excelBody (ui (state_of (updateExcelPreview s))) =
       (if xs = [] then [PlaceholderRow]
        else rows_of (take 50 xs) @ (if 50 < length xs then [InfoRow (length xs)] else []))"
    using updateExcelPreview_array [OF assms(1) r] by blast
  show ?thesis by (simp only: b data_rows_preview_body [OF r e])
qed

lemma data_rows_showAllTransactions:
  assumes "transactions (extractedData s) = JArr xs" and "list_all readable xs"
  shows "data_rows (excelBody (ui (state_of
           (showAllTransactions (state_of (updateExcelPreview s)))))) = map render_row xs"
proof -
  have r: "list_all readable (take 50 xs)" using assms(2) by (rule list_all_take)
  define t where "t = state_of (updateExcelPreview s)"
  have tx: "transactions (extractedData t) = JArr xs" using assms(1) by (simp add: t_def)
  have b: "xs = [] \<longrightarrow> excelBody (ui t) = [PlaceholderRow]"
    using updateExcelPreview_array [OF assms(1) r] by (simp add: t_def)
  have "data_rows (excelBody (ui (state_of (showAllTransactions t)))) = map render_row xs"
    using tx b assms(2) data_rows_rows_of [OF assms(2), of "[]"]
    by (cases "xs = []") (simp_all add: showAllTransactions_def Let_def)
  then show ?thesis by (simp add: t_def)
qed

text \<open>
  Claim C8. Let the transactions be the sequence \<open>xs\<close> of \<open>n\<close> records. The preview
  shows the first \<open>min 50 n\<close> of them, row by row in the order of the sequence: the
  \<open>i\<close>-th row has the thirteen cells of the \<open>i\<close>-th record, starting with its serial
  number, its deductor and the deductor's TAN. \<^verbatim>\<open>showAllTransactions\<close> shows all \<open>n\<close>
  in that order. Neither changes the stored sequence, and a parse stores the server's
  sequence as it is and shows its preview.
\<close>

theorem rows_in_extraction_order:
  assumes "transactions (extractedData s) = JArr xs" and "list_all readable xs"
  shows "data_rows (excelBody (ui (state_of (updateExcelPreview s)))) =
           map (\<lambda>t.
                 [[Str (js_or (prop_of t ''sr_no'') (JStr ''''))],
                  [Str (js_or (prop_of t ''deductor_name'') (JStr ''Not Available''))],
                  [Str (js_or (prop_of t ''deductor_tan'') (JStr ''''))],
                  [Str (js_or (prop_of t ''section'') (JStr ''''))],
                  [Str (js_or (prop_of t ''transaction_date'') (JStr ''''))],
                  [Str (js_or (prop_of t ''status'') (JStr ''F''))],
                  [Str (js_or (prop_of t ''date_of_booking'') (JStr ''''))],
                  [Lit rupee_sign, formatAmount (prop_of t ''amount_paid'')],
                  [Lit rupee_sign, formatAmount (prop_of t ''tax_deducted'')],
                  [Lit rupee_sign, formatAmount (prop_of t ''tds_deposited'')],
                  [Lit rupee_sign, formatAmount (prop_of t ''net_amount'')],
                  [toFixed2 (parseFloat (js_or (prop_of t ''rate'') (JNum (Fin 0)))), Lit ''%''],
                  [Str (js_or (prop_of t ''page_number'') (JStr ''''))]])
               (take (min 50 (length xs)) xs)
       \<and> length (data_rows (excelBody (ui (state_of (updateExcelPreview s))))) =
           min 50 (length xs)
       \<and> data_rows (excelBody (ui (state_of
            (showAllTransactions (state_of (updateExcelPreview s)))))) =
           map (\<lambda>t.
                 [[Str (js_or (prop_of t ''sr_no'') (JStr ''''))],
                  [Str (js_or (prop_of t ''deductor_name'') (JStr ''Not Available''))],
                  [Str (js_or (prop_of t ''deductor_tan'') (JStr ''''))],
                  [Str (js_or (prop_of t ''section'') (JStr ''''))],
                  [Str (js_or (prop_of t ''transaction_date'') (JStr ''''))],
                  [Str (js_or (prop_of t ''status'') (JStr ''F''))],
                  [Str (js_or (prop_of t ''date_of_booking'') (JStr ''''))],
                  [Lit rupee_sign, formatAmount (prop_of t ''amount_paid'')],
                  [Lit rupee_sign, formatAmount (prop_of t ''tax_deducted'')],
                  [Lit rupee_sign, formatAmount (prop_of t ''tds_deposited'')],
                  [Lit rupee_sign, formatAmount (prop_of t ''net_amount'')],
                  [toFixed2 (parseFloat (js_or (prop_of t ''rate'') (JNum (Fin 0)))), Lit ''%''],
                  [Str (js_or (prop_of t ''page_number'') (JStr ''''))]])
               xs
       \<and> transactions (extractedData (state_of (updateExcelPreview s))) = JArr xs
       \<and> transactions (extractedData (state_of (showAllTransactions s))) = JArr xs
       \<and> (selectedFile s' \<noteq> None \<longrightarrow>
            transactions (extractedData
              (parsePDF now0 now1 type_error (UploadParsed a (JArr xs)) s')) = JArr xs
            \<and> data_rows (excelBody (ui
                (parsePDF now0 now1 type_error (UploadParsed a (JArr xs)) s'))) =
                data_rows (excelBody (ui (state_of (updateExcelPreview s)))))"
proof -
  have tk: "take (min 50 (length xs)) xs = take 50 xs" by (simp add: min_def)
  have rr: "render_row =
          (\<lambda>t. [[Str (js_or (prop_of t ''sr_no'') (JStr ''''))],
                  [Str (js_or (prop_of t ''deductor_name'') (JStr ''Not Available''))],
                  [Str (js_or (prop_of t ''deductor_tan'') (JStr ''''))],
                  [Str (js_or (prop_of t ''section'') (JStr ''''))],
                  [Str (js_or (prop_of t ''transaction_date'') (JStr ''''))],
                  [Str (js_or (prop_of t ''status'') (JStr ''F''))],
                  [Str (js_or (prop_of t ''date_of_booking'') (JStr ''''))],
                  [Lit rupee_sign, formatAmount (prop_of t ''amount_paid'')],
                  [Lit rupee_sign, formatAmount (prop_of t ''tax_deducted'')],
                  [Lit rupee_sign, formatAmount (prop_of t ''tds_deposited'')],
                  [Lit rupee_sign, formatAmount (prop_of t ''net_amount'')],
                  [toFixed2 (parseFloat (js_or (prop_of t ''rate'') (JNum (Fin 0)))), Lit ''%''],
                  [Str (js_or (prop_of t ''page_number'') (JStr ''''))]])"
    by (rule ext) (simp add: render_row_def)
  have r: "list_all readable (take 50 xs)" using assms(2) by (rule list_all_take)
  have a: "data_rows (excelBody (ui (state_of (updateExcelPreview s)))) =
             map render_row (take 50 xs)"
    using assms by (rule data_rows_updateExcelPreview)
  have b: "data_rows (excelBody (ui (state_of
             (showAllTransactions (state_of (updateExcelPreview s)))))) = map render_row xs"
    using assms by (rule data_rows_showAllTransactions)
  have c: "transactions (extractedData (state_of (updateExcelPreview s))) = JArr xs"
          "transactions (extractedData (state_of (showAllTransactions s))) = JArr xs"
    using assms(1) by simp_all
  have p: "selectedFile s' \<noteq> None \<longrightarrow>
            transactions (extractedData
              (parsePDF now0 now1 type_error (UploadParsed a (JArr xs)) s')) = JArr xs
            \<and> data_rows (excelBody (ui
                (parsePDF now0 now1 type_error (UploadParsed a (JArr xs)) s'))) =
                map render_row (take 50 xs)"
  proof
    assume "selectedFile s' \<noteq> None"
    then obtain f where f: "selectedFile s' = Some f" by blast
    show "transactions (extractedData
              (parsePDF now0 now1 type_error (UploadParsed a (JArr xs)) s')) = JArr xs
            \<and> data_rows (excelBody (ui
                (parsePDF now0 now1 type_error (UploadParsed a (JArr xs)) s'))) =
                map render_row (take 50 xs)"
    proof
      show "transactions (extractedData
              (parsePDF now0 now1 type_error (UploadParsed a (JArr xs)) s')) = JArr xs"
        by (simp add: extractedData_parsePDF f)
      have e: "xs = [] \<longrightarrow> take 50 xs = []" by simp
      show "data_rows (excelBody (ui
                (parsePDF now0 now1 type_error (UploadParsed a (JArr xs)) s'))) =
                map render_row (take 50 xs)"
        by (simp only: parse_array_result(2) [OF f r] data_rows_preview_body [OF r e])
    qed
  qed
  have l: "length (data_rows (excelBody (ui (state_of (updateExcelPreview s))))) =
             min 50 (length xs)"
    by (simp add: a min_def)
  show ?thesis
    unfolding tk using a b c p l unfolding rr by simp
qed

text \<open>
  A second parse in the sample session, of two transactions, the one with the serial
  number 2 first: the rows are shown in that order. The rate 1.005 of the first one
  is shown as \<^verbatim>\<open>1.00%\<close>, since the double is below 1.005.
\<close>

theorem rows_in_extraction_order_witness:
  "transactions (extractedData
      (parsed_with sample_assessee (JArr [second_transaction, sample_transaction])))
     = JArr [second_transaction, sample_transaction]
   \<and> list_all readable [second_transaction, sample_transaction]
   \<and> data_rows (excelBody (ui (state_of (updateExcelPreview
        (parsed_with sample_assessee (JArr [second_transaction, sample_transaction])))))) =
       [[[Str (JNum (Fin 2))], [Str (JStr ''ZED LTD'')], [Str (JStr ''MUMZ00001A'')],
         [Str (JStr ''194C'')], [Str (JStr ''05-Apr-2023'')], [Str (JStr ''U'')],
         [Str (JStr ''20-Apr-2023'')],
         [Lit rupee_sign, Lit ''1,20,000.00''], [Lit rupee_sign, Lit ''2,400.00''],
         [Lit rupee_sign, Lit ''2,400.00''], [Lit rupee_sign, Lit ''1,17,600.00''],
         [Lit ''1.00'', Lit ''%''], [Str (JNum (Fin 3))]],
        [[Str (JNum (Fin 1))], [Str (JStr ''ACME LTD'')], [Str (JStr ''DELA12345B'')],
         [Str (JStr ''194J'')], [Str (JStr ''30-Jun-2023'')], [Str (JStr ''F'')],
         [Str (JStr ''15-Jul-2023'')],
         [Lit rupee_sign, Lit ''50,000.00''], [Lit rupee_sign, Lit ''5,000.00''],
         [Lit rupee_sign, Lit ''5,000.00''], [Lit rupee_sign, Lit ''45,000.00''],
         [Lit ''10.00'', Lit ''%''], [Str (JNum (Fin 2))]]]
   \<and> data_rows (excelBody (ui (state_of (showAllTransactions (state_of (updateExcelPreview
        (parsed_with sample_assessee (JArr [second_transaction, sample_transaction])))))))) =
       [[[Str (JNum (Fin 2))], [Str (JStr ''ZED LTD'')], [Str (JStr ''MUMZ00001A'')],
         [Str (JStr ''194C'')], [Str (JStr ''05-Apr-2023'')], [Str (JStr ''U'')],
         [Str (JStr ''20-Apr-2023'')],
         [Lit rupee_sign, Lit ''1,20,000.00''], [Lit rupee_sign, Lit ''2,400.00''],
         [Lit rupee_sign, Lit ''2,400.00''], [Lit rupee_sign, Lit ''1,17,600.00''],
         [Lit ''1.00'', Lit ''%''], [Str (JNum (Fin 3))]],
        [[Str (JNum (Fin 1))], [Str (JStr ''ACME LTD'')], [Str (JStr ''DELA12345B'')],
         [Str (JStr ''194J'')], [Str (JStr ''30-Jun-2023'')], [Str (JStr ''F'')],
         [Str (JStr ''15-Jul-2023'')],
         [Lit rupee_sign, Lit ''50,000.00''], [Lit rupee_sign, Lit ''5,000.00''],
         [Lit rupee_sign, Lit ''5,000.00''], [Lit rupee_sign, Lit ''45,000.00''],
         [Lit ''10.00'', Lit ''%''], [Str (JNum (Fin 2))]]]
   \<and> selectedFile sample_parsed \<noteq> None
   \<and> transactions (extractedData
        (parsePDF 3000 3200 sample_type_error
           (UploadParsed sample_assessee (JArr [second_transaction, sample_transaction]))
           sample_parsed))
       = JArr [second_transaction, sample_transaction]
   \<and> data_rows (excelBody (ui
        (parsePDF 3000 3200 sample_type_error
           (UploadParsed sample_assessee (JArr [second_transaction, sample_transaction]))
           sample_parsed))) =
       [[[Str (JNum (Fin 2))], [Str (JStr ''ZED LTD'')], [Str (JStr ''MUMZ00001A'')],
         [Str (JStr ''194C'')], [Str (JStr ''05-Apr-2023'')], [Str (JStr ''U'')],
         [Str (JStr ''20-Apr-2023'')],
         [Lit rupee_sign, Lit ''1,20,000.00''], [Lit rupee_sign, Lit ''2,400.00''],
         [Lit rupee_sign, Lit ''2,400.00''], [Lit rupee_sign, Lit ''1,17,600.00''],
         [Lit ''1.00'', Lit ''%''], [Str (JNum (Fin 3))]],
        [[Str (JNum (Fin 1))], [Str (JStr ''ACME LTD'')], [Str (JStr ''DELA12345B'')],
         [Str (JStr ''194J'')], [Str (JStr ''30-Jun-2023'')], [Str (JStr ''F'')],
         [Str (JStr ''15-Jul-2023'')],
         [Lit rupee_sign, Lit ''50,000.00''], [Lit rupee_sign, Lit ''5,000.00''],
         [Lit rupee_sign, Lit ''5,000.00''], [Lit rupee_sign, Lit ''45,000.00''],
         [Lit ''10.00'', Lit ''%''], [Str (JNum (Fin 2))]]]"
proof -
  have tx: "transactions (extractedData
      (parsed_with sample_assessee (JArr [second_transaction, sample_transaction])))
     = JArr [second_transaction, sample_transaction]"
    by (simp add: parsed_with_data)
  have rd: "list_all readable [second_transaction, sample_transaction]"
    by (simp add: second_transaction_def sample_transaction_def)
  have sel: "selectedFile sample_parsed \<noteq> None"
    by (simp add: sample_parsed_def parsed_with_file)
  note t = rows_in_extraction_order
      [OF tx rd, of sample_parsed 3000 3200 sample_type_error sample_assessee,
       folded render_row_def]
  show ?thesis
    using t tx rd sel
    by (simp add: render_second_transaction render_sample_transaction)
qed

section \<open>Files that are not PDFs\<close>

lemma uploaded_files_append:
  "uploaded_files (rs @ rs') = uploaded_files rs @ uploaded_files rs'"
  by (simp add: uploaded_files_def)

lemma only_pdf_handleFile: "only_pdf s \<Longrightarrow> only_pdf (handleFile f s)"
  by (simp add: only_pdf_def handleFile_def Let_def)

lemma only_pdf_loadPDF: "only_pdf s \<Longrightarrow> only_pdf (loadPDF f outcome s)"
  by (simp add: only_pdf_def loadPDF_def split: load_outcome.splits)

lemma only_pdf_parsePDF: "only_pdf s \<Longrightarrow> only_pdf (parsePDF now0 now1 type_error outcome s)"
  by (auto simp add: only_pdf_def requests_parsePDF uploaded_files_append uploaded_files_def
      split: option.splits)

lemma only_pdf_showAllTransactions:
  "only_pdf s \<Longrightarrow> only_pdf (state_of (showAllTransactions s))"
  by (simp add: only_pdf_def)

lemma only_pdf_showDownloadModal: "only_pdf s \<Longrightarrow> only_pdf (state_of (showDownloadModal s))"
  by (simp add: only_pdf_def)

lemma only_pdf_downloadExcelFile:
  "only_pdf s \<Longrightarrow> only_pdf (state_of (downloadExcelFile outcome s))"
  by (auto simp add: only_pdf_def downloadExcelFile_def Let_def uploaded_files_append
      uploaded_files_def split: option.splits download_outcome.splits)

lemma only_pdf_resetTool: "only_pdf s \<Longrightarrow> only_pdf (state_of (resetTool s))"
  using resetTool_returns [of s] by (simp add: only_pdf_def)

lemma only_pdf_step: "only_pdf s \<Longrightarrow> only_pdf (step s e)"
  by (cases e)
     (simp_all add: only_pdf_handleFile only_pdf_loadPDF only_pdf_parsePDF
       only_pdf_showAllTransactions only_pdf_showDownloadModal only_pdf_downloadExcelFile
       only_pdf_resetTool)

lemma only_pdf_run: "only_pdf s \<Longrightarrow> only_pdf (run s es)"
  unfolding run_def by (induction es arbitrary: s) (simp_all add: only_pdf_step)

lemma only_pdf_initial: "only_pdf (initial_state page saved today)"
  by (simp add: only_pdf_def initial_state_def uploaded_files_def)

lemma only_pdf_init: "only_pdf s \<Longrightarrow> only_pdf (init today s)"
  by (simp add: only_pdf_def init_def loadUserData_def updateStatisticsCounters_def
      saveUserData_def split: option.splits)

text \<open>
  Claim C9. For a file whose name, in lower case, does not end in \<^verbatim>\<open>.pdf\<close>,
  \<^verbatim>\<open>handleFile\<close> shows an error notification and changes nothing else: the selected
  file, the extracted data and every element of the page (the parse button too) are as
  before, and a parse after it sends what it would have sent before. So in every
  session, whatever files are offered, every file that is uploaded for parsing has a
  name that ends in \<^verbatim>\<open>.pdf\<close>.
\<close>

theorem handleFile_rejects_non_pdf:
  assumes "\<not> is_pdf_name (file_name f)"
  shows "handleFile f s =
           s\<lparr>notifications := notifications s @ [(''Please select a PDF file.'', NError)]\<rparr>
       \<and> selectedFile (handleFile f s) = selectedFile s
       \<and> extractedData (handleFile f s) = extractedData s
       \<and> ui (handleFile f s) = ui s
       \<and> requests (parsePDF now0 now1 type_error outcome (handleFile f s)) =
           requests (parsePDF now0 now1 type_error outcome s)
       \<and> list_all (\<lambda>g. is_pdf_name (file_name g))
            (uploaded_files (requests (run (init today (initial_state page saved today0))
                                           (es @ SelectFile f # es'))))"
proof -
  have eq: "handleFile f s =
              s\<lparr>notifications := notifications s @ [(''Please select a PDF file.'', NError)]\<rparr>"
    using assms by (simp add: handleFile_def showNotification_def)
  have req: "requests (parsePDF now0 now1 type_error outcome (handleFile f s)) =
               requests (parsePDF now0 now1 type_error outcome s)"
    unfolding eq by (simp add: requests_parsePDF split: option.splits)
  have "only_pdf (run (init today (initial_state page saved today0)) (es @ SelectFile f # es'))"
    by (intro only_pdf_run only_pdf_init only_pdf_initial)
  then have inv: "list_all (\<lambda>g. is_pdf_name (file_name g))
            (uploaded_files (requests (run (init today (initial_state page saved today0))
                                           (es @ SelectFile f # es'))))"
    by (simp add: only_pdf_def)
  show ?thesis using eq req inv by simp
qed

text \<open>
  In the sample session a text file is offered after the parse, and the parse button
  is clicked again: the second upload is the PDF that was selected before.
\<close>

theorem handleFile_rejects_non_pdf_witness:
  "\<not> is_pdf_name (file_name \<lparr>file_name = ''notes.txt'', file_size = 120\<rparr>)
   \<and> handleFile \<lparr>file_name = ''notes.txt'', file_size = 120\<rparr> sample_parsed =
       sample_parsed\<lparr>notifications :=
         notifications sample_parsed @ [(''Please select a PDF file.'', NError)]\<rparr>
   \<and> selectedFile (handleFile \<lparr>file_name = ''notes.txt'', file_size = 120\<rparr> sample_parsed)
       = Some sample_file
   \<and> list_all (\<lambda>g. is_pdf_name (file_name g))
        (uploaded_files (requests
           (run (init ''Tue Nov 03 2026'' (initial_state sample_page None ''Tue Nov 03 2026''))
              ([SelectFile sample_file] @
               SelectFile \<lparr>file_name = ''notes.txt'', file_size = 120\<rparr> #
               [ClickParse 1000 2500 sample_type_error (UploadFailed (BadStatus 500))]))))"
  using handleFile_rejects_non_pdf
      [of "\<lparr>file_name = ''notes.txt'', file_size = 120\<rparr>" sample_parsed _ _ _ _
          "''Tue Nov 03 2026''" sample_page None "''Tue Nov 03 2026''" "[SelectFile sample_file]"
          "[ClickParse 1000 2500 sample_type_error (UploadFailed (BadStatus 500))]"]
  by (simp add: is_pdf_name_def endsWith_def toLowerCase_def to_lower_char_def
      sample_parsed_def parsed_with_file)

section \<open>The usage counters\<close>

lemma userData_download_blocked:
  "\<not> downloadable s \<Longrightarrow> userData (state_of (downloadExcelFile outcome s)) = userData s"
  "\<not> downloadable s \<Longrightarrow>
     localStorage (state_of (downloadExcelFile outcome s)) = localStorage s"
  by (simp_all add: downloadable_def downloadExcelFile_def split: option.splits)

lemma userData_download_failed:
  "userData (state_of (downloadExcelFile (DownloadFailed failure) s)) = userData s"
  "localStorage (state_of (downloadExcelFile (DownloadFailed failure) s)) = localStorage s"
  by (simp_all add: downloadExcelFile_def Let_def split: option.splits)

lemma userData_showAllTransactions [simp]:
  "userData (state_of (showAllTransactions s)) = userData s" by simp

text \<open>
  Claim C10. A successful download adds exactly 1 to \<^verbatim>\<open>totalFilesProcessed\<close> and
  to \<^verbatim>\<open>todayFilesProcessed\<close>, leaves the reset date, and stores the result; a failed
  download, or one with nothing to download, changes neither the counters nor the
  stored entry. A session that starts on a day other than the stored reset date sets
  \<^verbatim>\<open>todayFilesProcessed\<close> to 0 and the reset date to the day, leaves
  \<^verbatim>\<open>totalFilesProcessed\<close>, and stores the result; one that starts on the same day takes
  the stored entry as it is. No other event changes the counters or the stored entry.
\<close>

theorem usage_counters:
  "(downloadable s \<longrightarrow>
      userData (state_of (downloadExcelFile (DownloadReady download_url filename) s)) =
        (userData s)\<lparr>totalFilesProcessed := totalFilesProcessed (userData s) + 1,
                     todayFilesProcessed := todayFilesProcessed (userData s) + 1\<rparr>
      \<and> localStorage (state_of (downloadExcelFile (DownloadReady download_url filename) s)) =
        Some ((userData s)\<lparr>totalFilesProcessed := totalFilesProcessed (userData s) + 1,
                           todayFilesProcessed := todayFilesProcessed (userData s) + 1\<rparr>))
   \<and> userData (state_of (downloadExcelFile (DownloadFailed failure) s)) = userData s
   \<and> localStorage (state_of (downloadExcelFile (DownloadFailed failure) s)) = localStorage s
   \<and> (\<not> downloadable s \<longrightarrow>
        userData (state_of (downloadExcelFile outcome s)) = userData s
        \<and> localStorage (state_of (downloadExcelFile outcome s)) = localStorage s)
   \<and> (lastResetDate saved \<noteq> today \<longrightarrow>
        userData (init today (initial_state page (Some saved) today0)) =
          saved\<lparr>todayFilesProcessed := 0, lastResetDate := today\<rparr>
        \<and> localStorage (init today (initial_state page (Some saved) today0)) =
          Some (saved\<lparr>todayFilesProcessed := 0, lastResetDate := today\<rparr>))
   \<and> (lastResetDate saved = today \<longrightarrow>
        userData (init today (initial_state page (Some saved) today0)) = saved
        \<and> localStorage (init today (initial_state page (Some saved) today0)) = Some saved)
   \<and> ((case e of ConfirmDownload (DownloadReady u n) \<Rightarrow> False | _ \<Rightarrow> True) \<longrightarrow>
        userData (step s e) = userData s \<and> localStorage (step s e) = localStorage s)"
proof -
  have a: "downloadable s \<longrightarrow>
      userData (state_of (downloadExcelFile (DownloadReady download_url filename) s)) =
        (userData s)\<lparr>totalFilesProcessed := totalFilesProcessed (userData s) + 1,
                     todayFilesProcessed := todayFilesProcessed (userData s) + 1\<rparr>
      \<and> localStorage (state_of (downloadExcelFile (DownloadReady download_url filename) s)) =
        Some ((userData s)\<lparr>totalFilesProcessed := totalFilesProcessed (userData s) + 1,
                           todayFilesProcessed := todayFilesProcessed (userData s) + 1\<rparr>)"
    by (auto simp add: downloadable_def downloadExcelFile_def Let_def split: option.splits)
  have b: "lastResetDate saved \<noteq> today \<longrightarrow>
        userData (init today (initial_state page (Some saved) today0)) =
          saved\<lparr>todayFilesProcessed := 0, lastResetDate := today\<rparr>
        \<and> localStorage (init today (initial_state page (Some saved) today0)) =
          Some (saved\<lparr>todayFilesProcessed := 0, lastResetDate := today\<rparr>)"
    by (simp add: init_def loadUserData_def initial_state_def updateStatisticsCounters_def
        saveUserData_def)
  have c: "lastResetDate saved = today \<longrightarrow>
        userData (init today (initial_state page (Some saved) today0)) = saved
        \<and> localStorage (init today (initial_state page (Some saved) today0)) = Some saved"
    by (simp add: init_def loadUserData_def initial_state_def updateStatisticsCounters_def)
  have d: "(case e of ConfirmDownload (DownloadReady u n) \<Rightarrow> False | _ \<Rightarrow> True) \<longrightarrow>
        userData (step s e) = userData s \<and> localStorage (step s e) = localStorage s"
    using resetTool_returns [of s]
    by (cases e) (simp_all add: userData_download_failed split: download_outcome.splits)
  show ?thesis
    using a b c d
    by (simp add: userData_download_blocked userData_download_failed)
qed

text \<open>
  The first download of the sample session; a session on the next day with 7 files
  stored, 2 of them from the day before; and a reset, which is no download.
\<close>

theorem usage_counters_witness:
  "downloadable sample_parsed
   \<and> userData (state_of (downloadExcelFile
        (DownloadReady (JStr ''/download/26AS.xlsx'') (JStr ''26AS.xlsx'')) sample_parsed)) =
       \<lparr>totalFilesProcessed = 1, todayFilesProcessed = 1, lastResetDate = ''Tue Nov 03 2026''\<rparr>
   \<and> localStorage (state_of (downloadExcelFile
        (DownloadReady (JStr ''/download/26AS.xlsx'') (JStr ''26AS.xlsx'')) sample_parsed)) =
       Some \<lparr>totalFilesProcessed = 1, todayFilesProcessed = 1,
             lastResetDate = ''Tue Nov 03 2026''\<rparr>
   \<and> \<not> downloadable sample_no_transactions
   \<and> userData (state_of (downloadExcelFile
        (DownloadReady (JStr ''/download/26AS.xlsx'') (JStr ''26AS.xlsx''))
        sample_no_transactions)) = userData sample_no_transactions
   \<and> ''Mon Nov 02 2026'' \<noteq> ''Tue Nov 03 2026''
   \<and> userData (init ''Tue Nov 03 2026''
        (initial_state sample_page
           (Some \<lparr>totalFilesProcessed = 7, todayFilesProcessed = 2,
                  lastResetDate = ''Mon Nov 02 2026''\<rparr>) ''Tue Nov 03 2026'')) =
       \<lparr>totalFilesProcessed = 7, todayFilesProcessed = 0, lastResetDate = ''Tue Nov 03 2026''\<rparr>
   \<and> userData (init ''Mon Nov 02 2026''
        (initial_state sample_page
           (Some \<lparr>totalFilesProcessed = 7, todayFilesProcessed = 2,
                  lastResetDate = ''Mon Nov 02 2026''\<rparr>) ''Mon Nov 02 2026'')) =
       \<lparr>totalFilesProcessed = 7, todayFilesProcessed = 2, lastResetDate = ''Mon Nov 02 2026''\<rparr>
   \<and> userData (step sample_parsed ClickReset) = userData sample_parsed"
proof -
  have d1: "downloadable sample_parsed"
    by (simp add: downloadable_array [of _ "[sample_transaction]"] sample_parsed_def
        parsed_with_data)
  have d2: "\<not> downloadable sample_no_transactions"
    by (simp add: downloadable_array [of _ "[]"] sample_no_transactions_def parsed_with_data)
  show ?thesis
    using usage_counters
      [of sample_parsed "JStr ''/download/26AS.xlsx''" "JStr ''26AS.xlsx''" _ _
          "\<lparr>totalFilesProcessed = 7, todayFilesProcessed = 2,
            lastResetDate = ''Mon Nov 02 2026''\<rparr>"
          "''Tue Nov 03 2026''" sample_page "''Tue Nov 03 2026''" ClickReset]
    usage_counters
      [of sample_no_transactions _ _ _
          "DownloadReady (JStr ''/download/26AS.xlsx'') (JStr ''26AS.xlsx'')"
          "\<lparr>totalFilesProcessed = 7, todayFilesProcessed = 2,
            lastResetDate = ''Mon Nov 02 2026''\<rparr>"
          "''Mon Nov 02 2026''" sample_page "''Mon Nov 02 2026''" ClickReset]
      d1 d2
    by (simp add: sample_parsed_def sample_no_transactions_def parsed_with_userData)
qed

end
